theory Spec2Isabelle
  imports Main "HOL-Library.Log_Nat"
begin

section \<open>JavaScript numbers\<close>

text \<open>
  The bridge is written in JavaScript, whose only number type is IEEE 754 binary64. A number
  is modelled by its value: \<open>NaN\<close>, the two infinities, or a finite rational. The two zeros
  \<open>+0\<close> and \<open>-0\<close> are one value \<open>Fin 0\<close>: the program never divides by a variable, never
  calls \<open>Object.is\<close>, and both zeros are falsy, print as \<open>0\<close> and compare equal under
  \<open>===\<close>, so no path of the program tells them apart.

  Every arithmetic result is rounded to the nearest binary64 value by \<open>to_double\<close>
  (round to nearest, ties to even, 53 bits of precision, gradual underflow below
  \<open>2 powi (-1022)\<close>, overflow to infinity from \<open>2 ^ 1024\<close>).
\<close>

datatype jsnum = NaN | PosInf | NegInf | Fin rat

definition ilog2 :: "rat \<Rightarrow> int" where
  \<comment> \<open>the binary exponent of a non-zero rational: \<open>2 powi e \<le> \<bar>q\<bar> < 2 powi (e + 1)\<close>\<close>
  "ilog2 q = (let (a, b) = quotient_of \<bar>q\<bar>; d = bitlen a - bitlen b
              in if 2 powi d \<le> \<bar>q\<bar> then d else d - 1)"

definition round_half_even :: "rat \<Rightarrow> int" where
  "round_half_even r = (let f = \<lfloor>r\<rfloor>; d = r - of_int f in
      if d < 1/2 then f else if 1/2 < d then f + 1 else if even f then f else f + 1)"

definition quantum :: "rat \<Rightarrow> int" where
  \<comment> \<open>the exponent of the spacing of binary64 values around \<open>q\<close>\<close>
  "quantum q = max (ilog2 q - 52) (-1074)"

definition to_double :: "rat \<Rightarrow> jsnum" where
  "to_double q = (if q = 0 then Fin 0 else
     let u = quantum q; r = of_int (round_half_even (q / 2 powi u)) * 2 powi u
     in if 2 ^ 1024 \<le> r then PosInf else if r \<le> - (2 ^ 1024) then NegInf else Fin r)"

text \<open>
  \<open>x * c\<close> and \<open>x / c\<close> for a finite positive constant \<open>c\<close> (the program only multiplies
  and divides by the literal \<open>1000000\<close>), \<open>a - b\<close>, and \<open>Math.round\<close>, which rounds to the
  nearest integer with ties towards \<open>+\<infinity>\<close> and is exact on binary64 values.
\<close>

definition js_mul_by :: "jsnum \<Rightarrow> rat \<Rightarrow> jsnum" where
  "js_mul_by x c = (case x of Fin q \<Rightarrow> to_double (q * c) | _ \<Rightarrow> x)"

definition js_div_by :: "jsnum \<Rightarrow> rat \<Rightarrow> jsnum" where
  "js_div_by x c = (case x of Fin q \<Rightarrow> to_double (q / c) | _ \<Rightarrow> x)"

fun js_sub :: "jsnum \<Rightarrow> jsnum \<Rightarrow> jsnum" where
  "js_sub NaN _ = NaN"
| "js_sub _ NaN = NaN"
| "js_sub (Fin a) (Fin b) = to_double (a - b)"
| "js_sub (Fin a) PosInf = NegInf"
| "js_sub (Fin a) NegInf = PosInf"
| "js_sub PosInf PosInf = NaN"
| "js_sub PosInf _ = PosInf"
| "js_sub NegInf NegInf = NaN"
| "js_sub NegInf _ = NegInf"

definition js_neg :: "jsnum \<Rightarrow> jsnum" where
  "js_neg x = (case x of NaN \<Rightarrow> NaN | PosInf \<Rightarrow> NegInf | NegInf \<Rightarrow> PosInf | Fin q \<Rightarrow> Fin (- q))"

definition js_round :: "jsnum \<Rightarrow> jsnum" where
  "js_round x = (case x of Fin q \<Rightarrow> Fin (of_int \<lfloor>q + 1/2\<rfloor>) | _ \<Rightarrow> x)"

definition isNaN :: "jsnum \<Rightarrow> bool" where
  "isNaN x = (x = NaN)"

section \<open>JavaScript values\<close>

text \<open>
  The values the handlers receive come from \<open>JSON.parse\<close> (bus messages, HTTP bodies) or from
  the persistence client: \<open>null\<close>, booleans, numbers, strings, arrays and objects, and
  \<open>undefined\<close> where a property is missing. A string is its UTF-8 byte sequence. An object
  is the list of its own properties; a property read takes the first pair with that key.
\<close>

datatype jsval =
    Undefined
  | Null
  | Bool bool
  | Num jsnum
  | Str string
  | Arr "jsval list"
  | Obj "(string \<times> jsval) list"

datatype js_error =
    TypeError          \<comment> \<open>a property read on \<open>null\<close> or \<open>undefined\<close>, or a failed conversion to a string\<close>
  | Error string       \<comment> \<open>\<open>throw new Error(message)\<close>\<close>
  | Rejected           \<comment> \<open>a rejected promise of the persistence client\<close>

fun truthy :: "jsval \<Rightarrow> bool" where
  "truthy Undefined = False"
| "truthy Null = False"
| "truthy (Bool b) = b"
| "truthy (Num x) = (x \<noteq> NaN \<and> x \<noteq> Fin 0)"
| "truthy (Str s) = (s \<noteq> [])"
| "truthy (Arr xs) = True"
| "truthy (Obj kvs) = True"

fun typeof_object :: "jsval \<Rightarrow> bool" where
  \<comment> \<open>\<open>typeof v === 'object'\<close>\<close>
  "typeof_object Null = True"
| "typeof_object (Arr xs) = True"
| "typeof_object (Obj kvs) = True"
| "typeof_object v = False"

text \<open>
  \<open>v.name\<close>, for the property names the program reads (none of them is a built-in property
  of a string, number, boolean or array): a \<open>TypeError\<close> on \<open>null\<close> and \<open>undefined\<close>, the
  own property of an object, \<open>undefined\<close> otherwise. \<open>js_prop\<close> is the same read at a place
  where the value is known not to be \<open>null\<close> or \<open>undefined\<close>.
\<close>

fun js_prop :: "jsval \<Rightarrow> string \<Rightarrow> jsval" where
  "js_prop (Obj kvs) k = (case map_of kvs k of Some v \<Rightarrow> v | None \<Rightarrow> Undefined)"
| "js_prop v k = Undefined"

definition js_get :: "jsval \<Rightarrow> string \<Rightarrow> js_error + jsval" where
  "js_get v k = (if v = Null \<or> v = Undefined then Inl TypeError else Inr (js_prop v k))"

fun js_index0 :: "jsval \<Rightarrow> js_error + jsval" where
  \<comment> \<open>\<open>v[0]\<close>\<close>
  "js_index0 Undefined = Inl TypeError"
| "js_index0 Null = Inl TypeError"
| "js_index0 (Arr []) = Inr Undefined"
| "js_index0 (Arr (x # xs)) = Inr x"
| "js_index0 (Str []) = Inr Undefined"
| "js_index0 (Str (c # cs)) = Inr (Str [c])"
| "js_index0 (Obj kvs) = Inr (js_prop (Obj kvs) ''0'')"
| "js_index0 v = Inr Undefined"

subsection \<open>parseFloat\<close>

text \<open>
  \<open>parseFloat(v)\<close> converts \<open>v\<close> to a string, drops leading white space and reads the
  longest prefix that is a decimal literal (\<open>StrDecimalLiteral\<close>: an optional sign, then
  \<open>Infinity\<close>, or digits with an optional fraction and an optional exponent); the result is
  the binary64 value nearest to the literal, or \<open>NaN\<close> when there is no such prefix.
\<close>

definition ws1 :: "string" where
  \<comment> \<open>U+0009 to U+000D and U+0020\<close>
  "ws1 = [CHR 0x09, CHR 0x0A, CHR 0x0B, CHR 0x0C, CHR 0x0D, CHR 0x20]"

definition ws2 :: "string" where
  \<comment> \<open>U+00A0\<close>
  "ws2 = [CHR 0xC2, CHR 0xA0]"

definition ws3 :: "string list" where
  \<comment> \<open>U+1680, U+2000 to U+200A, U+2028, U+2029, U+202F, U+205F, U+3000, U+FEFF\<close>
  "ws3 = map (\<lambda>(a, b, c). [a, b, c])
          [(CHR 0xE1, CHR 0x9A, CHR 0x80),
           (CHR 0xE2, CHR 0x80, CHR 0x80), (CHR 0xE2, CHR 0x80, CHR 0x81),
           (CHR 0xE2, CHR 0x80, CHR 0x82), (CHR 0xE2, CHR 0x80, CHR 0x83),
           (CHR 0xE2, CHR 0x80, CHR 0x84), (CHR 0xE2, CHR 0x80, CHR 0x85),
           (CHR 0xE2, CHR 0x80, CHR 0x86), (CHR 0xE2, CHR 0x80, CHR 0x87),
           (CHR 0xE2, CHR 0x80, CHR 0x88), (CHR 0xE2, CHR 0x80, CHR 0x89),
           (CHR 0xE2, CHR 0x80, CHR 0x8A), (CHR 0xE2, CHR 0x80, CHR 0xA8),
           (CHR 0xE2, CHR 0x80, CHR 0xA9), (CHR 0xE2, CHR 0x80, CHR 0xAF),
           (CHR 0xE2, CHR 0x81, CHR 0x9F), (CHR 0xE3, CHR 0x80, CHR 0x80),
           (CHR 0xEF, CHR 0xBB, CHR 0xBF)]"

definition ws_len :: "string \<Rightarrow> nat" where
  \<comment> \<open>the number of bytes of the white-space character at the head of the string, or 0\<close>
  "ws_len s = (if s \<noteq> [] \<and> hd s \<in> set ws1 then 1
               else if take 2 s = ws2 then 2
               else if take 3 s \<in> set ws3 then 3 else 0)"

fun trimStart :: "string \<Rightarrow> string" where
  "trimStart [] = []"
| "trimStart (c # cs) =
     (if ws_len (c # cs) = 0 then c # cs else trimStart (drop (ws_len (c # cs) - 1) cs))"

definition is_digit :: "char \<Rightarrow> bool" where
  "is_digit c = (c \<in> set ''0123456789'')"

definition digits_val :: "string \<Rightarrow> int" where
  "digits_val ds = foldl (\<lambda>a c. 10 * a + (of_char c - 48)) 0 ds"

definition parse_exponent :: "string \<Rightarrow> int" where
  \<comment> \<open>the value of an \<open>ExponentPart\<close> at the head of the string, 0 when there is none\<close>
  "parse_exponent s =
     (case s of
        [] \<Rightarrow> 0
      | c # t \<Rightarrow>
          if c = CHR ''e'' \<or> c = CHR ''E'' then
            (case t of
               [] \<Rightarrow> 0
             | d # t' \<Rightarrow>
                 if d = CHR ''-'' then
                   (if takeWhile is_digit t' = [] then 0
                    else - digits_val (takeWhile is_digit t'))
                 else if d = CHR ''+'' then digits_val (takeWhile is_digit t')
                 else digits_val (takeWhile is_digit t))
          else 0)"

definition parse_unsigned :: "string \<Rightarrow> jsnum" where
  \<comment> \<open>the longest \<open>StrUnsignedDecimalLiteral\<close> at the head of the string\<close>
  "parse_unsigned s =
     (if take 8 s = ''Infinity'' then PosInf
      else
        let ip = takeWhile is_digit s;
            r1 = dropWhile is_digit s;
            dot = (r1 \<noteq> [] \<and> hd r1 = CHR ''.'');
            fp = (if dot then takeWhile is_digit (tl r1) else []);
            r2 = (if dot then dropWhile is_digit (tl r1) else r1)
        in if ip = [] \<and> fp = [] then NaN
           else to_double ((of_int (digits_val ip) + of_int (digits_val fp) / 10 ^ length fp)
                           * 10 powi parse_exponent r2))"

definition parseFloat_string :: "string \<Rightarrow> jsnum" where
  "parseFloat_string s =
     (case trimStart s of
        [] \<Rightarrow> NaN
      | c # r \<Rightarrow>
          if c = CHR ''-'' then js_neg (parse_unsigned r)
          else if c = CHR ''+'' then parse_unsigned r
          else parse_unsigned (c # r))"

text \<open>
  On the other values: a number prints as the shortest decimal that reads back as the same
  number, so \<open>parseFloat\<close> returns it; \<open>undefined\<close>, \<open>null\<close>, booleans and objects print as
  \<open>undefined\<close>, \<open>null\<close>, \<open>true\<close>/\<open>false\<close> and \<open>[object Object]\<close>, which have no numeric
  prefix; an array prints as its elements joined by commas, and since a comma is neither white
  space nor part of a literal, only the first element is read (an empty array, and a first
  element \<open>null\<close> or \<open>undefined\<close>, print as the empty string). \<open>numeric_prefix\<close> is the
  number read when the conversion to a string succeeds.
\<close>

fun numeric_prefix :: "jsval \<Rightarrow> jsnum" where
  "numeric_prefix Undefined = NaN"
| "numeric_prefix Null = NaN"
| "numeric_prefix (Bool b) = NaN"
| "numeric_prefix (Num x) = x"
| "numeric_prefix (Str s) = parseFloat_string s"
| "numeric_prefix (Arr []) = NaN"
| "numeric_prefix (Arr (x # xs)) = numeric_prefix x"
| "numeric_prefix (Obj kvs) = NaN"

text \<open>
  The conversion to a string can fail. For an object it calls the object's \<open>toString\<close>
  and, when that is not callable, its \<open>valueOf\<close>; with no primitive from either it throws a
  \<open>TypeError\<close>. An object made by \<open>JSON.parse\<close> inherits a callable \<open>toString\<close> unless it
  has an own property of that name, and an own property is never callable (the inherited
  \<open>valueOf\<close> returns the object itself, an own one is not callable). So the conversion
  throws exactly for an object with an own \<open>toString\<close> property. An array converts every
  element other than \<open>null\<close> and \<open>undefined\<close>, so it throws when an element does.
\<close>

fun to_string_throws :: "jsval \<Rightarrow> bool"
  and any_to_string_throws :: "jsval list \<Rightarrow> bool" where
  "to_string_throws (Obj kvs) = (map_of kvs ''toString'' \<noteq> None)"
| "to_string_throws (Arr xs) = any_to_string_throws xs"
| "to_string_throws Undefined = False"
| "to_string_throws Null = False"
| "to_string_throws (Bool b) = False"
| "to_string_throws (Num x) = False"
| "to_string_throws (Str s) = False"
| "any_to_string_throws [] = False"
| "any_to_string_throws (x # xs) = (to_string_throws x \<or> any_to_string_throws xs)"

definition parseFloat :: "jsval \<Rightarrow> js_error + jsnum" where
  "parseFloat v = (if to_string_throws v then Inl TypeError else Inr (numeric_prefix v))"

definition and_then :: "js_error + 'a \<Rightarrow> ('a \<Rightarrow> js_error + 'b) \<Rightarrow> js_error + 'b" where
  \<comment> \<open>sequencing: an exception of the first step leaves the function\<close>
  "and_then r f = (case r of Inl err \<Rightarrow> Inl err | Inr x \<Rightarrow> f x)"

section \<open>Validator\<close>

text \<open>
  \<open>sanitizeFloatValue(value, fieldName)\<close>; the field name is only printed in the warning,
  and console output is not part of this model except where stated. The function has no
  \<open>try\<close>: what \<open>parseFloat\<close> throws leaves it. \<open>sanitized\<close> is the number it returns when
  nothing is thrown.
\<close>

definition sanitizeFloatValue :: "jsval \<Rightarrow> js_error + jsnum" where
  "sanitizeFloatValue v =
     (if v = Null \<or> v = Undefined then Inr (Fin 0)
      else and_then (parseFloat v) (\<lambda>parsed.
             if isNaN parsed then Inr (Fin 0)
             else Inr (js_div_by (js_round (js_mul_by parsed 1000000)) 1000000)))"

definition sanitized :: "jsval \<Rightarrow> jsnum" where
  "sanitized v =
     (if v = Null \<or> v = Undefined then Fin 0
      else let parsed = numeric_prefix v
           in if isNaN parsed then Fin 0
              else js_div_by (js_round (js_mul_by parsed 1000000)) 1000000)"

record sensor_row =
  ph :: jsnum
  temp :: jsnum
  ch4 :: jsnum
  pressure :: jsnum

record sensor_error_row =
  ph_error :: jsnum
  ph_delta_error :: jsnum
  temp_error :: jsnum
  temp_delta_error :: jsnum

record actuator_row =
  pump_base :: jsnum
  pump_acid :: jsnum
  heater :: jsnum
  solenoid :: jsnum
  stirrer :: jsnum

text \<open>
  The three record validators throw their structural error on a value that fails the guard;
  past the guard they sanitize the fields in the order written, and an exception of a
  sanitizer leaves the validator.
\<close>

definition validateSensorData :: "jsval \<Rightarrow> js_error + sensor_row" where
  "validateSensorData sensors =
     (if \<not> truthy sensors \<or> \<not> typeof_object sensors
      then Inl (Error ''Invalid sensors data structure'')
      else
        and_then (sanitizeFloatValue (js_prop sensors ''ph'')) (\<lambda>v1.
        and_then (sanitizeFloatValue (js_prop sensors ''temp'')) (\<lambda>v2.
        and_then (sanitizeFloatValue (js_prop sensors ''ch4'')) (\<lambda>v3.
        and_then (sanitizeFloatValue (js_prop sensors ''pressure'')) (\<lambda>v4.
          Inr \<lparr> ph = v1, temp = v2, ch4 = v3, pressure = v4 \<rparr>)))))"

definition validateSensorErrors :: "jsval \<Rightarrow> js_error + sensor_error_row" where
  "validateSensorErrors sensorErrors =
     (if \<not> truthy sensorErrors \<or> \<not> typeof_object sensorErrors
      then Inl (Error ''Invalid sensor_errors data structure'')
      else
        and_then (sanitizeFloatValue (js_prop sensorErrors ''ph_error'')) (\<lambda>v1.
        and_then (sanitizeFloatValue (js_prop sensorErrors ''ph_delta_error'')) (\<lambda>v2.
        and_then (sanitizeFloatValue (js_prop sensorErrors ''temp_error'')) (\<lambda>v3.
        and_then (sanitizeFloatValue (js_prop sensorErrors ''temp_delta_error'')) (\<lambda>v4.
          Inr \<lparr> ph_error = v1, ph_delta_error = v2, temp_error = v3,
                  temp_delta_error = v4 \<rparr>)))))"

definition validateActuatorData :: "jsval \<Rightarrow> js_error + actuator_row" where
  "validateActuatorData actuators =
     (if \<not> truthy actuators \<or> \<not> typeof_object actuators
      then Inl (Error ''Invalid actuators data structure'')
      else
        and_then (sanitizeFloatValue (js_prop actuators ''pump_base'')) (\<lambda>v1.
        and_then (sanitizeFloatValue (js_prop actuators ''pump_acid'')) (\<lambda>v2.
        and_then (sanitizeFloatValue (js_prop actuators ''heater'')) (\<lambda>v3.
        and_then (sanitizeFloatValue (js_prop actuators ''solenoid'')) (\<lambda>v4.
        and_then (sanitizeFloatValue (js_prop actuators ''stirrer'')) (\<lambda>v5.
          Inr \<lparr> pump_base = v1, pump_acid = v2, heater = v3, solenoid = v4,
                  stirrer = v5 \<rparr>))))))"

definition is_object :: "jsval \<Rightarrow> bool" where
  \<comment> \<open>a JavaScript object other than \<open>null\<close>: a plain object or an array\<close>
  "is_object v = (case v of Arr xs \<Rightarrow> True | Obj kvs \<Rightarrow> True | _ \<Rightarrow> False)"

definition convertible :: "jsval \<Rightarrow> string list \<Rightarrow> bool" where
  \<comment> \<open>each of the named properties of \<open>v\<close> can be converted to a string\<close>
  "convertible v ks = list_all (\<lambda>k. \<not> to_string_throws (js_prop v k)) ks"

section \<open>Persistence gateway\<close>

text \<open>
  The store is reached through the Supabase client and is an external collaborator. Each
  request the program sends is a \<open>db_call\<close>; the model appends it to the list \<open>calls\<close>, in
  the order sent, and asks the \<open>gateway\<close> for the reply. The gateway is a parameter: any
  function from the calls sent so far and the present call to a reply. A reply is the
  resolved \<open>{ data, error }\<close> object, or a rejection (an exception at the \<open>await\<close>).
  The row of a call is the object the program hands to the client; how the client encodes it
  for the wire is not part of the program.
\<close>

record calibration_log_row =
  calibration_type :: string
  offset_value :: jsval
  reference_ph :: jsval
  current_ph :: jsval
  response_data :: jsval
  success :: jsval
  timestamp :: string

datatype db_call =
    InsertSensors sensor_row
      \<comment> \<open>\<open>from('sensors').insert([row]).select('id')\<close>\<close>
  | InsertSensorErrors jsval sensor_error_row
      \<comment> \<open>\<open>from('sensor_errors').insert([{ sensor_id, ...row }])\<close>\<close>
  | InsertActuators actuator_row
      \<comment> \<open>\<open>from('actuators').insert([{ ...row }])\<close>\<close>
  | SelectLatestSensorId
      \<comment> \<open>\<open>from('sensors').select('id').order('created_at', { ascending: false }).limit(1).single()\<close>\<close>
  | InsertCalibrationLog calibration_log_row
      \<comment> \<open>\<open>from('calibration_logs').insert([row])\<close>\<close>

datatype db_reply =
    Resolved jsval jsval    \<comment> \<open>\<open>data\<close> and \<open>error\<close>\<close>
  | Rejects

type_synonym gateway = "db_call list \<Rightarrow> db_call \<Rightarrow> db_reply"

fun row_numbers :: "db_call \<Rightarrow> jsnum list" where
  \<comment> \<open>the sanitized numeric fields of the row a call writes\<close>
  "row_numbers (InsertSensors r) = [ph r, temp r, ch4 r, pressure r]"
| "row_numbers (InsertSensorErrors i r) = [ph_error r, ph_delta_error r, temp_error r, temp_delta_error r]"
| "row_numbers (InsertActuators r) = [pump_base r, pump_acid r, heater r, solenoid r, stirrer r]"
| "row_numbers c = []"

section \<open>Ingestion pipeline\<close>

text \<open>
  The module state of the bus handler: the id of the last sensor reading inserted, the warmup
  flag, and the calls sent to the store so far.
\<close>

record handler_state =
  currentSensorId :: jsval
  isWarmupActive :: bool
  calls :: "db_call list"

definition initial_state :: handler_state where
  "initial_state = \<lparr> currentSensorId = Null, isWarmupActive = False, calls = [] \<rparr>"

definition send :: "gateway \<Rightarrow> db_call \<Rightarrow> handler_state \<Rightarrow> db_reply \<times> handler_state" where
  "send gw c s = (gw (calls s) c, s\<lparr>calls := calls s @ [c]\<rparr>)"

definition reply_id :: "db_reply \<Rightarrow> jsval" where
  \<comment> \<open>what \<open>insertSensorData\<close> returns once the insert has been answered: \<open>null\<close> on an
      error or an exception, \<open>data[0].id\<close> otherwise. Before it returns the id it prints it
      in a template literal, which converts it to a string; an exception there is caught
      like the others.\<close>
  "reply_id reply =
     (case reply of
        Rejects \<Rightarrow> Null
      | Resolved data error \<Rightarrow>
          if truthy error then Null
          else (case js_index0 data of
                  Inl err \<Rightarrow> Null
                | Inr row \<Rightarrow>
                    (case js_get row ''id'' of
                       Inl err \<Rightarrow> Null
                     | Inr i \<Rightarrow> if to_string_throws i then Null else i)))"

definition insertSensorData :: "gateway \<Rightarrow> jsval \<Rightarrow> handler_state \<Rightarrow> jsval \<times> handler_state" where
  "insertSensorData gw sensors s =
     (case validateSensorData sensors of
        Inl err \<Rightarrow> (Null, s)
      | Inr validatedSensors \<Rightarrow>
          (case send gw (InsertSensors validatedSensors) s of
             (reply, s') \<Rightarrow> (reply_id reply, s')))"

definition insertSensorErrors :: "gateway \<Rightarrow> jsval \<Rightarrow> jsval \<Rightarrow> handler_state \<Rightarrow> handler_state" where
  "insertSensorErrors gw sensorId sensorErrors s =
     (case validateSensorErrors sensorErrors of
        Inl err \<Rightarrow> s
      | Inr validatedErrors \<Rightarrow> snd (send gw (InsertSensorErrors sensorId validatedErrors) s))"

definition insertActuatorData :: "gateway \<Rightarrow> jsval \<Rightarrow> jsval \<Rightarrow> handler_state \<Rightarrow> handler_state" where
  "insertActuatorData gw sensorId actuators s =
     (case validateActuatorData actuators of
        Inl err \<Rightarrow> s
      | Inr validatedActuators \<Rightarrow> snd (send gw (InsertActuators validatedActuators) s))"

definition latest_id :: "db_reply \<Rightarrow> jsval" where
  \<comment> \<open>what \<open>getLatestSensorId\<close> returns once the query has been answered\<close>
  "latest_id reply =
     (case reply of
        Rejects \<Rightarrow> Null
      | Resolved data error \<Rightarrow>
          if truthy error \<or> \<not> truthy data then Null else js_prop data ''id'')"

definition getLatestSensorId :: "gateway \<Rightarrow> handler_state \<Rightarrow> jsval \<times> handler_state" where
  "getLatestSensorId gw s =
     (case send gw SelectLatestSensorId s of (reply, s') \<Rightarrow> (latest_id reply, s'))"

definition processSensorData :: "gateway \<Rightarrow> jsval \<Rightarrow> handler_state \<Rightarrow> (js_error + unit) \<times> handler_state" where
  "processSensorData gw payload s =
     (if isWarmupActive s then (Inr (), s)
      else case js_get payload ''sensors'' of
             Inl err \<Rightarrow> (Inl err, s)
           | Inr sensors \<Rightarrow>
               if truthy sensors \<and> truthy (js_prop payload ''sensor_errors'') then
                 (case insertSensorData gw sensors s of
                    (sensorId, s') \<Rightarrow>
                      if truthy sensorId
                      then (Inr (), insertSensorErrors gw sensorId (js_prop payload ''sensor_errors'')
                                      (s'\<lparr>currentSensorId := sensorId\<rparr>))
                      else (Inr (), s'))
               else if truthy sensors then
                 (case insertSensorData gw sensors s of
                    (sensorId, s') \<Rightarrow>
                      if truthy sensorId then (Inr (), s'\<lparr>currentSensorId := sensorId\<rparr>)
                      else (Inr (), s'))
               else (Inr (), s))"

definition updateWarmup :: "jsval \<Rightarrow> handler_state \<Rightarrow> handler_state" where
  \<comment> \<open>the first statement of \<open>processControlData\<close>, on the value of \<open>payload.system\<close>\<close>
  "updateWarmup system s =
     (if truthy system \<and> js_prop system ''warmup_active'' \<noteq> Undefined then
        (let newWarmupStatus = (js_prop system ''warmup_active'' = Num (Fin 1))
         in if newWarmupStatus \<noteq> isWarmupActive s then s\<lparr>isWarmupActive := newWarmupStatus\<rparr>
            else s)
      else s)"

definition processControlData :: "gateway \<Rightarrow> jsval \<Rightarrow> handler_state \<Rightarrow> (js_error + unit) \<times> handler_state" where
  "processControlData gw payload s =
     (case js_get payload ''system'' of
        Inl err \<Rightarrow> (Inl err, s)
      | Inr system \<Rightarrow>
          (let s1 = updateWarmup system s in
           if isWarmupActive s1 then (Inr (), s1)
           else if truthy (js_prop payload ''actuators'') then
             (case (if truthy (currentSensorId s1) then (currentSensorId s1, s1)
                    else getLatestSensorId gw s1) of
                (sensorId, s2) \<Rightarrow>
                  if truthy sensorId
                  then (Inr (), insertActuatorData gw sensorId (js_prop payload ''actuators'') s2)
                  else (Inr (), s2))
           else (Inr (), s1)))"

text \<open>
  The \<open>message\<close> handler. \<open>JSON.parse\<close> is not modelled: the handler receives its outcome,
  \<open>None\<close> when the text is not JSON. Whatever a topic handler throws is caught here.
\<close>

definition on_message :: "gateway \<Rightarrow> string \<Rightarrow> jsval option \<Rightarrow> handler_state \<Rightarrow> handler_state" where
  "on_message gw topic parsed s =
     (case parsed of
        None \<Rightarrow> s
      | Some payload \<Rightarrow>
          if topic = ''biogas/data/sensors'' then snd (processSensorData gw payload s)
          else if topic = ''biogas/data/control'' then snd (processControlData gw payload s)
          else s)"

definition persisted_numbers_ok :: "handler_state \<Rightarrow> bool" where
  \<comment> \<open>no row sent to the store so far holds a \<open>NaN\<close>\<close>
  "persisted_numbers_ok s = list_all (\<lambda>c. list_all (\<lambda>x. x \<noteq> NaN) (row_numbers c)) (calls s)"

section \<open>Calibration trigger\<close>

text \<open>
  The HTTP server variant keeps \<open>phCalibrationStatus\<close>: whether a calibration is in
  progress, the last response, and the pending request. Its state here also records what
  leaves the process: the calls sent to the store, the calls of \<open>client.publish\<close>, and the
  console lines of the calibration functions (level and fixed text, without the values
  printed after it). The clock is a parameter: \<open>clock i\<close> is what the \<open>i\<close>-th
  \<open>new Date().toISOString()\<close> of one handler run returns.
\<close>

record pending_calibration =
  referencePh :: jsnum
  currentPh :: jsnum
  offset :: jsnum
  timestamp_pending :: string

record last_calibration =
  timestamp_last :: string
  response :: jsval
  success_last :: jsval

text \<open>
  What the handler publishes and what it answers is \<open>JSON.stringify\<close> of an object;
  a number that is not finite is written as \<open>null\<close>.
\<close>

definition json_number :: "jsnum \<Rightarrow> jsval" where
  "json_number x = (case x of Fin q \<Rightarrow> Num (Fin q) | _ \<Rightarrow> Null)"

datatype publication =
  Publish string jsval jsval jsval string nat
    \<comment> \<open>topic, then \<open>offset\<close>, \<open>reference_ph\<close>, \<open>current_ph\<close>, \<open>timestamp\<close> as they stand in
        the published JSON text, then the QoS\<close>

record calibration_data =
  data_referencePh :: jsval
  data_currentPh :: jsval
  data_offset :: jsval
  data_timestamp :: string

datatype log_level = LOG | WARN | ERROR

record server_state =
  isCalibrating :: bool
  lastCalibration :: "last_calibration option"
  pendingCalibration :: "pending_calibration option"
  store_calls :: "db_call list"
  publishes :: "publication list"
  console :: "(log_level \<times> string) list"

definition initial_server_state :: server_state where
  "initial_server_state =
     \<lparr> isCalibrating = False, lastCalibration = None, pendingCalibration = None,
       store_calls = [], publishes = [], console = [] \<rparr>"

datatype http_response =
  Response (status: nat) (body_success: bool) (body_message: string)
           (body_data: "calibration_data option")

definition print :: "log_level \<Rightarrow> string \<Rightarrow> server_state \<Rightarrow> server_state" where
  "print lvl text s = s\<lparr>console := console s @ [(lvl, text)]\<rparr>"

definition or_null :: "jsnum option \<Rightarrow> jsval" where
  \<comment> \<open>\<open>pendingCalibration?.field || null\<close>\<close>
  "or_null x = (case x of None \<Rightarrow> Null | Some n \<Rightarrow> if truthy (Num n) then Num n else Null)"

definition response_success :: "jsval \<Rightarrow> jsval" where
  \<comment> \<open>\<open>payload.success || payload.status === 'success'\<close>, for a payload that can be read\<close>
  "response_success payload =
     (if truthy (js_prop payload ''success'') then js_prop payload ''success''
      else Bool (js_prop payload ''status'' = Str ''success''))"

definition calibration_log_of ::
  "string \<Rightarrow> jsval \<Rightarrow> pending_calibration option \<Rightarrow> calibration_log_row" where
  \<comment> \<open>the row \<open>logPhCalibration\<close> builds from the response and the pending request\<close>
  "calibration_log_of now payload pending =
     \<lparr> calibration_type = ''ph_offset'',
       offset_value = or_null (map_option offset pending),
       reference_ph = or_null (map_option referencePh pending),
       current_ph = or_null (map_option currentPh pending),
       response_data = payload,
       success = response_success payload,
       timestamp = now \<rparr>"

definition logPhCalibration :: "gateway \<Rightarrow> string \<Rightarrow> jsval \<Rightarrow> server_state \<Rightarrow> server_state" where
  "logPhCalibration gw now calibrationData s =
     (case js_get calibrationData ''success'' of
        Inl err \<Rightarrow> print WARN ''Exception saving calibration log:'' s
      | Inr v \<Rightarrow>
          (let logData = calibration_log_of now calibrationData (pendingCalibration s);
               s' = s\<lparr>store_calls := store_calls s @ [InsertCalibrationLog logData]\<rparr>
           in case gw (store_calls s) (InsertCalibrationLog logData) of
                Rejects \<Rightarrow> print WARN ''Exception saving calibration log:'' s'
              | Resolved data error \<Rightarrow>
                  if truthy error then print WARN ''Could not save calibration log:'' s'
                  else print LOG ''Calibration log saved successfully'' s'))"

definition processPhCalibrationResponse ::
  "gateway \<Rightarrow> (nat \<Rightarrow> string) \<Rightarrow> jsval \<Rightarrow> server_state \<Rightarrow> server_state" where
  "processPhCalibrationResponse gw clock payload s =
     (let s1 = (print LOG ''pH Calibration Response received:'' s)\<lparr>isCalibrating := False\<rparr>
      in case js_get payload ''success'' of
           Inl err \<Rightarrow>
             print ERROR ''Stack trace:''
               (print ERROR ''Error processing pH calibration response:'' s1)
         | Inr v \<Rightarrow>
             (let s2 = s1\<lparr>lastCalibration :=
                           Some \<lparr> timestamp_last = clock 0, response = payload,
                                  success_last = response_success payload \<rparr>\<rparr>;
                  s3 = (if truthy (response_success payload)
                        then print LOG ''pH Calibration successful:'' s2
                        else print ERROR ''pH Calibration failed:'' s2)
              in logPhCalibration gw (clock 1) payload s3))"

text \<open>
  \<open>POST /api/calibrate-ph\<close>. The handler reads \<open>req.body\<close>, whether the bus client is
  connected, and, when it publishes, the error the client passes to the publish callback
  (falsy when the broker acknowledged). The state returned is the one after that callback.
  The whole body of the handler is inside \<open>try\<close>: an exception at the destructuring of the
  request body or in \<open>parseFloat\<close> reaches the \<open>catch\<close> block, \<open>calibrate_catch\<close>.
\<close>

definition calibrate_catch :: "server_state \<Rightarrow> http_response \<times> server_state" where
  "calibrate_catch s =
     (Response 500 False ''Internal server error'' None,
      (print ERROR ''Error in pH calibration endpoint:'' s)
        \<lparr>isCalibrating := False, pendingCalibration := None\<rparr>)"

definition calibrate_ph ::
  "bool \<Rightarrow> jsval \<Rightarrow> (nat \<Rightarrow> string) \<Rightarrow> jsval \<Rightarrow> server_state \<Rightarrow> http_response \<times> server_state" where
  "calibrate_ph mqtt_connected publish_err clock body s =
     (case js_get body ''referencePh'' of
        Inl err \<Rightarrow> calibrate_catch s
      | Inr reference \<Rightarrow>
          if \<not> truthy reference \<or> \<not> truthy (js_prop body ''currentPh'')
          then (Response 400 False ''referencePh dan currentPh diperlukan'' None, s)
          else
            (case parseFloat reference of
               Inl err \<Rightarrow> calibrate_catch s
             | Inr refPh \<Rightarrow>
                 (case parseFloat (js_prop body ''currentPh'') of
                    Inl err \<Rightarrow> calibrate_catch s
                  | Inr curPh \<Rightarrow>
                      if isNaN refPh \<or> isNaN curPh
                      then (Response 400 False ''Nilai pH harus berupa angka yang valid'' None, s)
                      else
                        (case sanitizeFloatValue (Num (js_sub refPh curPh)) of
                           Inl err \<Rightarrow> calibrate_catch s
                         | Inr offs \<Rightarrow>
                             let s0 = print LOG ''   Calculated offset:''
                                        (print LOG ''   Current pH:''
                                          (print LOG ''   Reference pH:''
                                            (print LOG ''pH Calibration requested:'' s)))
                             in if \<not> mqtt_connected
                                then (Response 503 False ''MQTT client tidak terhubung'' None, s0)
                                else if isCalibrating s0
                                then (Response 409 False ''Kalibrasi pH sedang dalam proses'' None, s0)
                                else
                                  let s1 = s0\<lparr>isCalibrating := True,
                                             pendingCalibration :=
                                               Some \<lparr> referencePh = refPh, currentPh = curPh,
                                                      offset = offs, timestamp_pending = clock 0 \<rparr>,
                                             publishes := publishes s0 @
                                               [Publish ''biogas/ph_offset'' (json_number offs)
                                                  (json_number refPh) (json_number curPh)
                                                  (clock 1) 1]\<rparr>
                                  in if truthy publish_err
                                     then (Response 500 False ''Gagal mengirim offset ke ESP32'' None,
                                           (print ERROR ''Failed to publish pH offset:'' s1)
                                             \<lparr>isCalibrating := False, pendingCalibration := None\<rparr>)
                                     else (Response 200 True ''Offset pH berhasil dikirim ke ESP32''
                                             (Some \<lparr> data_referencePh = json_number refPh,
                                                      data_currentPh = json_number curPh,
                                                      data_offset = json_number offs,
                                                      data_timestamp = clock 2 \<rparr>),
                                           print LOG ''pH offset published:'' s1)))))"

definition getCalibrationStatus ::
  "bool \<Rightarrow> server_state \<Rightarrow> bool \<times> last_calibration option \<times> pending_calibration option \<times> bool" where
  \<comment> \<open>the values \<open>GET /api/calibration-status\<close> reads, before it encodes them\<close>
  "getCalibrationStatus mqtt_connected s =
     (isCalibrating s, lastCalibration s, pendingCalibration s, mqtt_connected)"

definition passes_validation :: "jsval \<Rightarrow> bool" where
  \<comment> \<open>both inputs are converted without an exception and pass both input tests of the handler\<close>
  "passes_validation body =
     (truthy (js_prop body ''referencePh'') \<and> truthy (js_prop body ''currentPh'')
      \<and> (case parseFloat (js_prop body ''referencePh'') of
            Inl err \<Rightarrow> False | Inr x \<Rightarrow> \<not> isNaN x)
      \<and> (case parseFloat (js_prop body ''currentPh'') of
            Inl err \<Rightarrow> False | Inr x \<Rightarrow> \<not> isNaN x))"

definition conversion_throws :: "jsval \<Rightarrow> bool" where
  \<comment> \<open>both inputs are there and \<open>parseFloat\<close> throws on one of them\<close>
  "conversion_throws body =
     (truthy (js_prop body ''referencePh'') \<and> truthy (js_prop body ''currentPh'')
      \<and> (to_string_throws (js_prop body ''referencePh'')
         \<or> to_string_throws (js_prop body ''currentPh'')))"

section \<open>Properties of the number model\<close>

lemma pow2_bitlen_rat:
  assumes "0 < a"
  shows "(2::rat) powi (bitlen a - 1) \<le> of_int a" and "of_int a < (2::rat) powi (bitlen a)"
proof -
  from bitlen_bounds[OF assms] have lo: "2 ^ nat (bitlen a - 1) \<le> a" and hi: "a < 2 ^ nat (bitlen a)"
    by auto
  have ge1: "1 \<le> bitlen a" using assms bitlen_eq_zero_iff[of a] bitlen_nonneg[of a] by linarith
  have "(2::rat) powi (bitlen a - 1) = 2 ^ nat (bitlen a - 1)"
    using ge1 by (simp add: power_int_nonneg_exp)
  also have "\<dots> = of_int (2 ^ nat (bitlen a - 1))" by simp
  also have "\<dots> \<le> of_int a" using lo by (simp only: of_int_le_iff)
  finally show "(2::rat) powi (bitlen a - 1) \<le> of_int a" .
  have "(of_int a :: rat) < of_int (2 ^ nat (bitlen a))" using hi by (simp only: of_int_less_iff)
  also have "\<dots> = 2 ^ nat (bitlen a)" by simp
  also have "\<dots> = 2 powi (bitlen a)" using ge1 by (simp add: power_int_nonneg_exp)
  finally show "of_int a < (2::rat) powi (bitlen a)" .
qed

lemma pow2_less_imp: "(2::rat) powi m < 2 powi n \<Longrightarrow> m < n"
  using power_int_increasing[of n m "2::rat"] by (cases "m < n") auto

lemma ilog2_bounds:
  assumes "q \<noteq> 0"
  shows "2 powi (ilog2 q) \<le> \<bar>q\<bar>" and "\<bar>q\<bar> < 2 powi (ilog2 q + 1)"
proof -
  obtain a b where ab: "quotient_of \<bar>q\<bar> = (a, b)" by force
  have bpos: "0 < b" using quotient_of_denom_pos[OF ab] .
  have qeq: "\<bar>q\<bar> = of_int a / of_int b" using quotient_of_div[OF ab] .
  have "0 < \<bar>q\<bar>" using assms by simp
  then have apos: "0 < a" using bpos qeq by (simp add: zero_less_divide_iff)
  define d where "d = bitlen a - bitlen b"
  note A = pow2_bitlen_rat[OF apos] and B = pow2_bitlen_rat[OF bpos]
  have bposr: "(0::rat) < of_int b" using bpos by simp
  have up: "\<bar>q\<bar> < 2 powi (d + 1)"
  proof -
    have "of_int a < (2::rat) powi (bitlen a)" by (rule A(2))
    also have "\<dots> = 2 powi (d + 1) * 2 powi (bitlen b - 1)"
      by (simp add: d_def power_int_add[symmetric])
    also have "\<dots> \<le> 2 powi (d + 1) * of_int b"
      using B(1) by (simp add: mult_left_mono)
    finally show ?thesis using bposr by (simp add: qeq pos_divide_less_eq)
  qed
  have low: "2 powi (d - 1) \<le> \<bar>q\<bar>"
  proof -
    have "2 powi (d - 1) * of_int b \<le> (2::rat) powi (d - 1) * 2 powi (bitlen b)"
      using B(2) by (simp add: mult_left_mono)
    also have "\<dots> = 2 powi (bitlen a - 1)"
      by (simp add: d_def power_int_add[symmetric])
    also have "\<dots> \<le> of_int a" by (rule A(1))
    finally show ?thesis using bposr by (simp add: qeq pos_le_divide_eq)
  qed
  have il: "ilog2 q = (if 2 powi d \<le> \<bar>q\<bar> then d else d - 1)"
    by (simp add: ilog2_def ab d_def Let_def)
  show "2 powi (ilog2 q) \<le> \<bar>q\<bar>" using low by (simp add: il)
  show "\<bar>q\<bar> < 2 powi (ilog2 q + 1)" using up by (auto simp add: il)
qed

lemma pow2_le_abs_nonzero: "(2::rat) powi e \<le> \<bar>q\<bar> \<Longrightarrow> q \<noteq> 0"
proof
  assume a: "(2::rat) powi e \<le> \<bar>q\<bar>" and "q = 0"
  have "(0::rat) < 2 powi e" by simp
  with a \<open>q = 0\<close> show False by simp
qed

lemma ilog2_ge:
  assumes "2 powi e \<le> \<bar>q\<bar>"
  shows "e \<le> ilog2 q"
proof -
  have q: "q \<noteq> 0" using assms by (rule pow2_le_abs_nonzero)
  have "(2::rat) powi e < 2 powi (ilog2 q + 1)"
    using assms ilog2_bounds(2)[OF q] by (rule le_less_trans)
  then show ?thesis using pow2_less_imp by fastforce
qed

lemma ilog2_eqI:
  assumes "2 powi e \<le> \<bar>q\<bar>" and "\<bar>q\<bar> < 2 powi (e + 1)"
  shows "ilog2 q = e"
proof -
  have q: "q \<noteq> 0" using assms(1) by (rule pow2_le_abs_nonzero)
  have 1: "e \<le> ilog2 q" using assms(1) by (rule ilog2_ge)
  have "(2::rat) powi (ilog2 q) < 2 powi (e + 1)"
    using ilog2_bounds(1)[OF q] assms(2) by (rule le_less_trans)
  then have "ilog2 q < e + 1" by (rule pow2_less_imp)
  with 1 show ?thesis by simp
qed

lemma round_half_even_error: "\<bar>of_int (round_half_even r) - r\<bar> \<le> 1/2"
proof -
  have "of_int \<lfloor>r\<rfloor> \<le> r" "r < of_int \<lfloor>r\<rfloor> + 1" by linarith+
  then show ?thesis
    by (auto simp add: round_half_even_def Let_def)
qed

lemma round_half_even_eqI:
  assumes "\<bar>r - of_int m\<bar> < 1/2"
  shows "round_half_even r = m"
proof -
  have "\<bar>of_int (round_half_even r) - of_int m :: rat\<bar> < 1"
    using round_half_even_error[of r] assms by linarith
  then have "\<bar>of_int (round_half_even r - m) :: rat\<bar> < of_int 1" by simp
  then have "\<bar>round_half_even r - m\<bar> < 1" by (simp only: of_int_abs[symmetric] of_int_less_iff)
  then show ?thesis by simp
qed

lemma to_double_not_NaN: "to_double q \<noteq> NaN"
  by (simp add: to_double_def Let_def)

lemma to_double_0: "to_double 0 = Fin 0"
  by (simp add: to_double_def)

lemma scaled_round_error:
  "\<bar>of_int (round_half_even (q / 2 powi u)) * 2 powi u - q\<bar> \<le> 2 powi (u - 1)"
proof -
  define m where "m = round_half_even (q / 2 powi u)"
  define w where "w = (2::rat) powi u"
  have pos: "0 < w" by (simp add: w_def)
  have "\<bar>of_int m - q / w\<bar> \<le> 1/2" unfolding m_def w_def by (rule round_half_even_error)
  then have "\<bar>of_int m - q / w\<bar> * w \<le> 1/2 * w"
    using pos by (simp only: mult_le_cancel_right_pos)
  moreover have "\<bar>of_int m - q / w\<bar> * w = \<bar>of_int m * w - q\<bar>"
  proof -
    have "\<bar>of_int m - q / w\<bar> * w = \<bar>(of_int m - q / w) * w\<bar>"
      using pos by (simp add: abs_mult)
    also have "(of_int m - q / w) * w = of_int m * w - q"
      using pos by (simp add: left_diff_distrib)
    finally show ?thesis .
  qed
  moreover have "1/2 * w = 2 powi (u - 1)"
    by (simp add: w_def power_int_diff)
  ultimately have "\<bar>of_int m * w - q\<bar> \<le> 2 powi (u - 1)" by (simp only:)
  then show ?thesis by (simp only: m_def w_def)
qed

lemma to_double_Fin_form:
  assumes "to_double q = Fin r" and "q \<noteq> 0"
  shows "r = of_int (round_half_even (q / 2 powi quantum q)) * 2 powi quantum q"
  using assms by (simp add: to_double_def Let_def split: if_splits)

lemma to_double_quantum_error:
  assumes "to_double q = Fin r" and "q \<noteq> 0"
  shows "\<bar>r - q\<bar> \<le> 2 powi (quantum q - 1)"
  using scaled_round_error[of q "quantum q"] to_double_Fin_form[OF assms] by (simp only:)

lemma to_double_rel_error:
  assumes "to_double q = Fin r" and "2 powi (-1022) \<le> \<bar>q\<bar>"
  shows "\<bar>r - q\<bar> \<le> \<bar>q\<bar> / 2 ^ 53"
proof -
  have q: "q \<noteq> 0" using assms(2) by (rule pow2_le_abs_nonzero)
  have e: "-1022 \<le> ilog2 q" using assms(2) by (rule ilog2_ge)
  then have "quantum q - 1 = ilog2 q - 53" by (simp add: quantum_def)
  with to_double_quantum_error[OF assms(1) q] have "\<bar>r - q\<bar> \<le> 2 powi (ilog2 q - 53)" by simp
  also have "(2::rat) powi (ilog2 q - 53) = 2 powi (ilog2 q) / 2 ^ 53"
    by (simp add: power_int_diff)
  also have "\<dots> \<le> \<bar>q\<bar> / 2 ^ 53"
    using ilog2_bounds(1)[OF q] by (simp add: divide_right_mono)
  finally show ?thesis .
qed

lemma to_double_abs_error:
  assumes "to_double q = Fin r"
  shows "\<bar>r - q\<bar> \<le> \<bar>q\<bar> / 2 ^ 53 + 2 powi (-1075)"
proof (cases "q = 0")
  case True
  with assms have "r = 0" by (simp add: to_double_def)
  with True show ?thesis by simp
next
  case q: False
  show ?thesis
  proof (cases "2 powi (-1022) \<le> \<bar>q\<bar>")
    case True
    have "(0::rat) \<le> 2 powi (-1075)" by simp
    with to_double_rel_error[OF assms True] show ?thesis by linarith
  next
    case False
    from False ilog2_bounds(1)[OF q] have "(2::rat) powi (ilog2 q) < 2 powi (-1022)" by simp
    then have "ilog2 q < -1022" by (rule pow2_less_imp)
    then have "quantum q - 1 = -1075" by (simp add: quantum_def)
    with to_double_quantum_error[OF assms q] have "\<bar>r - q\<bar> \<le> 2 powi (-1075)" by simp
    moreover have "0 \<le> \<bar>q\<bar> / 2 ^ 53" by simp
    ultimately show ?thesis by linarith
  qed
qed

lemma to_double_finite:
  assumes "\<bar>q\<bar> < 2 ^ 1023"
  shows "\<exists>r. to_double q = Fin r"
proof (cases "q = 0")
  case True
  then show ?thesis by (simp add: to_double_def)
next
  case False
  define u where "u = quantum q"
  define r where "r = of_int (round_half_even (q / 2 powi u)) * (2::rat) powi u"
  have err: "\<bar>r - q\<bar> \<le> 2 powi (u - 1)" unfolding r_def by (rule scaled_round_error)
  have "(2::rat) powi (u - 1) \<le> 2 ^ 1023"
  proof (cases "ilog2 q - 52 \<le> -1074")
    case True
    then have "u = -1074" by (simp add: u_def quantum_def)
    moreover have "(2::rat) powi (-1075) \<le> 2 powi 1023" by (rule power_int_increasing) simp_all
    ultimately show ?thesis by simp
  next
    case False
    then have "u = ilog2 q - 52" by (simp add: u_def quantum_def)
    then have "(2::rat) powi (u - 1) \<le> 2 powi (ilog2 q)" by (simp add: power_int_increasing)
    also have "\<dots> \<le> \<bar>q\<bar>" by (rule ilog2_bounds(1)[OF \<open>q \<noteq> 0\<close>])
    finally show ?thesis using assms by simp
  qed
  with err have "\<bar>r - q\<bar> \<le> 2 ^ 1023" by simp
  with assms have "\<bar>r\<bar> < 2 ^ 1023 + 2 ^ 1023" by linarith
  moreover have "(2::rat) ^ 1023 + 2 ^ 1023 = 2 ^ 1024" by simp
  ultimately have "\<bar>r\<bar> < 2 ^ 1024" by (simp only:)
  then have "\<not> 2 ^ 1024 \<le> r" "\<not> r \<le> - (2 ^ 1024)" by linarith+
  then have "to_double q = Fin r"
    using False unfolding to_double_def Let_def u_def[symmetric] r_def[symmetric]
    by simp
  then show ?thesis ..
qed

section \<open>Properties of the validator\<close>

lemma to_double_eqI:
  assumes "2 powi e \<le> \<bar>q\<bar>" and "\<bar>q\<bar> < 2 powi (e + 1)" and "-1022 \<le> e" and "e < 1023"
    and "\<bar>q / 2 powi (e - 52) - of_int m\<bar> < 1/2" and "r = of_int m * 2 powi (e - 52)"
  shows "to_double q = Fin r"
proof -
  have q: "q \<noteq> 0" using assms(1) by (rule pow2_le_abs_nonzero)
  have e: "ilog2 q = e" using assms(1,2) by (rule ilog2_eqI)
  have u: "quantum q = e - 52" using assms(3) by (simp add: quantum_def e)
  have m: "round_half_even (q / 2 powi (e - 52)) = m" using assms(5) by (rule round_half_even_eqI)
  have "(2::rat) powi (e + 1) \<le> 2 powi 1023" using assms(4) by (intro power_int_increasing) simp_all
  with assms(2) have "\<bar>q\<bar> < 2 ^ 1023" by simp
  then obtain r' where r': "to_double q = Fin r'" using to_double_finite by blast
  from to_double_Fin_form[OF r' q] have "r' = r" by (simp only: u m assms(6))
  with r' show ?thesis by simp
qed

lemma round_half_even_ge:
  assumes "of_int k \<le> r"
  shows "k \<le> round_half_even r"
proof -
  have "k \<le> \<lfloor>r\<rfloor>" using assms by (simp add: le_floor_iff)
  moreover have "\<lfloor>r\<rfloor> \<le> round_half_even r" by (simp add: round_half_even_def Let_def)
  ultimately show ?thesis by simp
qed

lemma to_double_overflow:
  assumes "2 ^ 1024 \<le> q"
  shows "to_double q = PosInf"
proof -
  have qpos: "0 < q" using assms by (rule less_le_trans[rotated]) simp
  then have aq: "\<bar>q\<bar> = q" and q0: "q \<noteq> 0" by simp_all
  have "(2::rat) powi 1024 \<le> \<bar>q\<bar>" using assms aq by simp
  then have e: "1024 \<le> ilog2 q" by (rule ilog2_ge)
  define u where "u = ilog2 q - 52"
  have u: "quantum q = u" using e by (simp add: quantum_def u_def)
  define m where "m = round_half_even (q / 2 powi u)"
  define w where "w = (2::rat) powi u"
  have wpos: "0 < w" by (simp add: w_def)
  have pw: "of_int (2 ^ 52) * w = 2 powi (ilog2 q)"
  proof -
    have "of_int (2 ^ 52) = (2::rat) powi 52" by simp
    then have "of_int (2 ^ 52) * w = (2::rat) powi 52 * 2 powi u" by (simp only: w_def)
    also have "\<dots> = 2 powi (52 + u)" by (subst power_int_add) simp_all
    also have "52 + u = ilog2 q" by (simp add: u_def)
    finally show ?thesis .
  qed
  have "of_int (2 ^ 52) * w \<le> q" using ilog2_bounds(1)[OF q0] aq pw by simp
  then have "of_int (2 ^ 52) \<le> q / w" using wpos by (simp only: pos_le_divide_eq)
  then have "2 ^ 52 \<le> m" unfolding m_def w_def by (rule round_half_even_ge)
  then have "(of_int (2 ^ 52) :: rat) \<le> of_int m" by (simp only: of_int_le_iff)
  then have "of_int (2 ^ 52) * w \<le> of_int m * w"
    using wpos by (simp only: mult_le_cancel_right_pos)
  then have "(2::rat) powi (ilog2 q) \<le> of_int m * w" by (simp only: pw)
  moreover have "(2::rat) powi 1024 \<le> 2 powi (ilog2 q)"
    using e by (intro power_int_increasing) simp_all
  ultimately have "(2::rat) powi 1024 \<le> of_int m * w" by (rule order_trans[rotated])
  then have "(2::rat) ^ 1024 \<le> of_int m * 2 powi u" by (simp add: w_def)
  then show ?thesis
    using q0 by (simp add: to_double_def Let_def u m_def)
qed

lemma to_double_tenth: "to_double (1 / 10) = Fin (3602879701896397 / 36028797018963968)"
  by (rule to_double_eqI[where e = "-4" and m = 7205759403792794]) simp_all



lemma sanitize_null: "sanitized Null = Fin 0" "sanitized Undefined = Fin 0"
  by (simp_all add: sanitized_def)

lemma sanitize_unparseable: "numeric_prefix v = NaN \<Longrightarrow> sanitized v = Fin 0"
  by (simp add: sanitized_def isNaN_def)

lemma sanitize_parsed:
  "v \<noteq> Null \<Longrightarrow> v \<noteq> Undefined \<Longrightarrow> numeric_prefix v \<noteq> NaN \<Longrightarrow>
   sanitized v = js_div_by (js_round (js_mul_by (numeric_prefix v) 1000000)) 1000000"
  by (simp add: sanitized_def isNaN_def)

lemma sanitize_Num_Fin:
  "sanitized (Num (Fin x)) = js_div_by (js_round (js_mul_by (Fin x) 1000000)) 1000000"
  by (simp add: sanitized_def isNaN_def)

lemma sanitize_Num_Inf:
  "sanitized (Num PosInf) = PosInf" "sanitized (Num NegInf) = NegInf"
  by (simp_all add: sanitized_def isNaN_def js_mul_by_def js_round_def js_div_by_def)

lemma rounding_chain_shape:
  "js_div_by (js_round (js_mul_by x 1000000)) 1000000 = NaN \<and> x = NaN
   \<or> js_div_by (js_round (js_mul_by x 1000000)) 1000000 = PosInf
   \<or> js_div_by (js_round (js_mul_by x 1000000)) 1000000 = NegInf
   \<or> (\<exists>n::int. js_div_by (js_round (js_mul_by x 1000000)) 1000000 = to_double (of_int n / 1000000))"
proof (cases x)
  case (Fin q)
  show ?thesis
  proof (cases "to_double (q * 1000000)")
    case (Fin p)
    then show ?thesis using \<open>x = Fin q\<close>
      by (auto simp add: js_mul_by_def js_round_def js_div_by_def)
  qed (simp_all add: \<open>x = Fin q\<close> js_mul_by_def js_round_def js_div_by_def to_double_not_NaN)
qed (simp_all add: js_mul_by_def js_round_def js_div_by_def)

lemma sanitize_shape:
  "sanitized v = PosInf \<or> sanitized v = NegInf
   \<or> (\<exists>n::int. sanitized v = to_double (of_int n / 1000000))"
proof (cases "v = Null \<or> v = Undefined \<or> numeric_prefix v = NaN")
  case True
  then have "sanitized v = Fin 0"
    using sanitize_null sanitize_unparseable by blast
  then have "sanitized v = to_double (of_int 0 / 1000000)" by (simp add: to_double_0)
  then show ?thesis by blast
next
  case False
  then have "sanitized v = js_div_by (js_round (js_mul_by (numeric_prefix v) 1000000)) 1000000"
    by (simp add: sanitize_parsed)
  with rounding_chain_shape[of "numeric_prefix v"] False show ?thesis by auto
qed

lemma sanitize_not_NaN: "sanitized v \<noteq> NaN"
  using sanitize_shape[of v] to_double_not_NaN by auto



lemma round_to_integer_error:
  fixes p :: rat
  shows "\<bar>of_int \<lfloor>p + 1/2\<rfloor> - p\<bar> \<le> 1/2"
proof -
  have "of_int \<lfloor>p + 1/2\<rfloor> \<le> p + 1/2" "p + 1/2 < of_int \<lfloor>p + 1/2\<rfloor> + 1" by linarith+
  then show ?thesis by linarith
qed

lemma sanitize_accuracy:
  assumes x: "\<bar>x\<bar> \<le> 10 ^ 300"
  shows "\<exists>(n::int) r. sanitized (Num (Fin x)) = Fin r
            \<and> to_double (of_int n / 1000000) = Fin r
            \<and> \<bar>of_int n - x * 1000000\<bar> \<le> 1/2 + \<bar>x\<bar> * 1000000 / 2 ^ 53 + 2 powi (-1075)"
proof -
  define q :: rat where "q = x * 1000000"
  have qa: "\<bar>q\<bar> = \<bar>x\<bar> * 1000000" by (simp add: q_def abs_mult)
  have qb: "\<bar>q\<bar> \<le> 10 ^ 306" using x by (simp add: qa)
  have big: "(10::rat) ^ 306 < 2 ^ 1023" by simp
  with qb have "\<bar>q\<bar> < 2 ^ 1023" by linarith
  then obtain p where p: "to_double q = Fin p" using to_double_finite by blast
  define n where "n = \<lfloor>p + 1/2\<rfloor>"
  have e1: "\<bar>p - q\<bar> \<le> \<bar>q\<bar> / 2 ^ 53 + 2 powi (-1075)" using p by (rule to_double_abs_error)
  have e2: "\<bar>of_int n - p\<bar> \<le> 1/2" unfolding n_def by (rule round_to_integer_error)
  from e1 e2 have e3: "\<bar>of_int n - q\<bar> \<le> 1/2 + \<bar>q\<bar> / 2 ^ 53 + 2 powi (-1075)" by linarith
  have tiny: "(2::rat) powi (-1075) \<le> 2 powi (-1)" by (rule power_int_increasing) simp_all
  have "\<bar>q\<bar> / 2 ^ 53 \<le> \<bar>q\<bar>" by (simp add: divide_le_eq)
  with e3 tiny have "\<bar>of_int n :: rat\<bar> \<le> 2 * \<bar>q\<bar> + 1" by simp
  with qb have "\<bar>of_int n :: rat\<bar> \<le> 2 * 10 ^ 306 + 1" by linarith
  then have "\<bar>of_int n / 1000000 :: rat\<bar> \<le> (2 * 10 ^ 306 + 1) / 1000000"
    by (simp add: divide_right_mono)
  moreover have "((2::rat) * 10 ^ 306 + 1) / 1000000 < 2 ^ 1023" by simp
  ultimately have "\<bar>of_int n / 1000000 :: rat\<bar> < 2 ^ 1023" by (rule le_less_trans)
  then obtain r where r: "to_double (of_int n / 1000000) = Fin r" using to_double_finite by blast
  have "sanitized (Num (Fin x)) = Fin r"
    using p r by (simp add: sanitize_Num_Fin js_mul_by_def js_round_def js_div_by_def q_def n_def)
  moreover have "\<bar>of_int n - x * 1000000\<bar> \<le> 1/2 + \<bar>x\<bar> * 1000000 / 2 ^ 53 + 2 powi (-1075)"
    using e3 by (simp only: q_def qa[unfolded q_def])
  ultimately show ?thesis using r by blast
qed

lemma guard_is_object: "(\<not> truthy v \<or> \<not> typeof_object v) = (\<not> is_object v)"
  by (cases v) (simp_all add: is_object_def)

lemma js_prop_missing: "map_of kvs k = None \<Longrightarrow> js_prop (Obj kvs) k = Undefined"
  by simp

lemma numeric_prefix_Infinity:
  "numeric_prefix (Str ''Infinity'') = PosInf" "numeric_prefix (Str ''-Infinity'') = NegInf"
  by (simp_all add: parseFloat_string_def ws_len_def ws1_def ws2_def ws3_def parse_unsigned_def
      js_neg_def)

lemma sanitize_overflow: "sanitized (Num (Fin (2 ^ 1020))) = PosInf"
proof -
  have "(2::rat) ^ 1024 \<le> 2 ^ 1020 * 1000000" by simp
  then have "to_double (2 ^ 1020 * 1000000) = PosInf" by (rule to_double_overflow)
  then show ?thesis
    by (simp only: sanitize_Num_Fin js_mul_by_def js_round_def js_div_by_def jsnum.case)
qed

lemma parseFloat_cases:
  "to_string_throws v \<Longrightarrow> parseFloat v = Inl TypeError"
  "\<not> to_string_throws v \<Longrightarrow> parseFloat v = Inr (numeric_prefix v)"
  by (simp_all add: parseFloat_def)

lemma parseFloat_Num: "parseFloat (Num x) = Inr x"
  by (simp add: parseFloat_def)

lemma sanitize_eq:
  "sanitizeFloatValue v = (if to_string_throws v then Inl TypeError else Inr (sanitized v))"
  by (auto simp add: sanitizeFloatValue_def sanitized_def parseFloat_def and_then_def Let_def)

lemma sanitize_Num: "sanitizeFloatValue (Num x) = Inr (sanitized (Num x))"
  by (simp add: sanitize_eq)

lemma sanitize_throws_iff: "(\<exists>e. sanitizeFloatValue v = Inl e) \<longleftrightarrow> to_string_throws v"
  by (simp add: sanitize_eq)

lemma missing_convertible: "\<not> to_string_throws Undefined" "\<not> to_string_throws Null"
  by simp_all

lemma validateSensorData_eq:
  "validateSensorData v =
     (if \<not> is_object v then Inl (Error ''Invalid sensors data structure'')
      else if \<not> convertible v [''ph'', ''temp'', ''ch4'', ''pressure''] then Inl TypeError
      else Inr \<lparr> ph = sanitized (js_prop v ''ph''), temp = sanitized (js_prop v ''temp''),
                 ch4 = sanitized (js_prop v ''ch4''),
                 pressure = sanitized (js_prop v ''pressure'') \<rparr>)"
  unfolding validateSensorData_def guard_is_object
  by (simp add: sanitize_eq and_then_def convertible_def)

lemma validateSensorErrors_eq:
  "validateSensorErrors v =
     (if \<not> is_object v then Inl (Error ''Invalid sensor_errors data structure'')
      else if \<not> convertible v [''ph_error'', ''ph_delta_error'', ''temp_error'', ''temp_delta_error'']
      then Inl TypeError
      else Inr \<lparr> ph_error = sanitized (js_prop v ''ph_error''),
                 ph_delta_error = sanitized (js_prop v ''ph_delta_error''),
                 temp_error = sanitized (js_prop v ''temp_error''),
                 temp_delta_error = sanitized (js_prop v ''temp_delta_error'') \<rparr>)"
  unfolding validateSensorErrors_def guard_is_object
  by (simp add: sanitize_eq and_then_def convertible_def)

lemma validateActuatorData_eq:
  "validateActuatorData v =
     (if \<not> is_object v then Inl (Error ''Invalid actuators data structure'')
      else if \<not> convertible v [''pump_base'', ''pump_acid'', ''heater'', ''solenoid'', ''stirrer'']
      then Inl TypeError
      else Inr \<lparr> pump_base = sanitized (js_prop v ''pump_base''),
                 pump_acid = sanitized (js_prop v ''pump_acid''),
                 heater = sanitized (js_prop v ''heater''),
                 solenoid = sanitized (js_prop v ''solenoid''),
                 stirrer = sanitized (js_prop v ''stirrer'') \<rparr>)"
  unfolding validateActuatorData_def guard_is_object
  by (simp add: sanitize_eq and_then_def convertible_def)

section \<open>Claims about the validator\<close>

subsection \<open>C4: the contract of the sanitizer\<close>













lemma sanitized_zero: "sanitized (Num (Fin 0)) = Fin 0"
proof -
  have "\<lfloor>(0::rat) + 1/2\<rfloor> = 0" by (rule floor_unique) simp_all
  then show ?thesis
    by (simp add: sanitize_Num_Fin js_mul_by_def js_round_def js_div_by_def to_double_0)
qed




subsection \<open>C9: the three record validators\<close>

text \<open>
  C9, as the code has it. Each of \<open>validateSensorData\<close>, \<open>validateSensorErrors\<close> and
  \<open>validateActuatorData\<close> throws its structural error exactly when the input is not a
  JavaScript object other than \<open>null\<close> (a plain object or an array). On such an object it
  throws a \<open>TypeError\<close> when one of the properties it reads cannot be converted to a string,
  and otherwise returns the record of its fixed fields, each the sanitized property of that
  name: a missing property becomes 0, and the result depends on no other property. In
  particular \<open>validateSensorData({})\<close> is the all-zero record and \<open>validateActuatorData(null)\<close>
  throws the structural error.
\<close>

theorem validators_contract:
  "(validateSensorData v = Inl (Error ''Invalid sensors data structure'') \<longleftrightarrow> \<not> is_object v)
   \<and> (validateSensorErrors v = Inl (Error ''Invalid sensor_errors data structure'') \<longleftrightarrow> \<not> is_object v)
   \<and> (validateActuatorData v = Inl (Error ''Invalid actuators data structure'') \<longleftrightarrow> \<not> is_object v)
   \<and> (is_object v \<and> \<not> convertible v [''ph'', ''temp'', ''ch4'', ''pressure''] \<longrightarrow>
        validateSensorData v = Inl TypeError)
   \<and> (is_object v \<and> \<not> convertible v [''ph_error'', ''ph_delta_error'', ''temp_error'', ''temp_delta_error''] \<longrightarrow>
        validateSensorErrors v = Inl TypeError)
   \<and> (is_object v \<and> \<not> convertible v [''pump_base'', ''pump_acid'', ''heater'', ''solenoid'', ''stirrer''] \<longrightarrow>
        validateActuatorData v = Inl TypeError)
   \<and> (is_object v \<and> convertible v [''ph'', ''temp'', ''ch4'', ''pressure''] \<longrightarrow>
        (\<exists>r. validateSensorData v = Inr r))
   \<and> (is_object v \<and> convertible v [''ph_error'', ''ph_delta_error'', ''temp_error'', ''temp_delta_error''] \<longrightarrow>
        (\<exists>r. validateSensorErrors v = Inr r))
   \<and> (is_object v \<and> convertible v [''pump_base'', ''pump_acid'', ''heater'', ''solenoid'', ''stirrer''] \<longrightarrow>
        (\<exists>r. validateActuatorData v = Inr r))
   \<and> (validateSensorData v = Inr sr \<longrightarrow>
        sanitizeFloatValue (js_prop v ''ph'') = Inr (ph sr)
        \<and> sanitizeFloatValue (js_prop v ''temp'') = Inr (temp sr)
        \<and> sanitizeFloatValue (js_prop v ''ch4'') = Inr (ch4 sr)
        \<and> sanitizeFloatValue (js_prop v ''pressure'') = Inr (pressure sr))
   \<and> (validateSensorErrors v = Inr er \<longrightarrow>
        sanitizeFloatValue (js_prop v ''ph_error'') = Inr (ph_error er)
        \<and> sanitizeFloatValue (js_prop v ''ph_delta_error'') = Inr (ph_delta_error er)
        \<and> sanitizeFloatValue (js_prop v ''temp_error'') = Inr (temp_error er)
        \<and> sanitizeFloatValue (js_prop v ''temp_delta_error'') = Inr (temp_delta_error er))
   \<and> (validateActuatorData v = Inr ar \<longrightarrow>
        sanitizeFloatValue (js_prop v ''pump_base'') = Inr (pump_base ar)
        \<and> sanitizeFloatValue (js_prop v ''pump_acid'') = Inr (pump_acid ar)
        \<and> sanitizeFloatValue (js_prop v ''heater'') = Inr (heater ar)
        \<and> sanitizeFloatValue (js_prop v ''solenoid'') = Inr (solenoid ar)
        \<and> sanitizeFloatValue (js_prop v ''stirrer'') = Inr (stirrer ar))
   \<and> (map_of kvs k = None \<longrightarrow> sanitizeFloatValue (js_prop (Obj kvs) k) = Inr (Fin 0))
   \<and> ((\<forall>k \<in> set [''ph'', ''temp'', ''ch4'', ''pressure'']. map_of kvs k = map_of kvs' k) \<longrightarrow>
        validateSensorData (Obj kvs) = validateSensorData (Obj kvs'))
   \<and> ((\<forall>k \<in> set [''ph_error'', ''ph_delta_error'', ''temp_error'', ''temp_delta_error''].
          map_of kvs k = map_of kvs' k) \<longrightarrow>
        validateSensorErrors (Obj kvs) = validateSensorErrors (Obj kvs'))
   \<and> ((\<forall>k \<in> set [''pump_base'', ''pump_acid'', ''heater'', ''solenoid'', ''stirrer''].
          map_of kvs k = map_of kvs' k) \<longrightarrow>
        validateActuatorData (Obj kvs) = validateActuatorData (Obj kvs'))
   \<and> validateSensorData (Obj []) = Inr \<lparr> ph = Fin 0, temp = Fin 0, ch4 = Fin 0, pressure = Fin 0 \<rparr>
   \<and> validateActuatorData Null = Inl (Error ''Invalid actuators data structure'')"
proof (intro conjI)
  show "validateSensorData v = Inl (Error ''Invalid sensors data structure'') \<longleftrightarrow> \<not> is_object v"
    by (simp add: validateSensorData_eq)
  show "validateSensorErrors v = Inl (Error ''Invalid sensor_errors data structure'') \<longleftrightarrow> \<not> is_object v"
    by (simp add: validateSensorErrors_eq)
  show "validateActuatorData v = Inl (Error ''Invalid actuators data structure'') \<longleftrightarrow> \<not> is_object v"
    by (simp add: validateActuatorData_eq)
  show "is_object v \<and> \<not> convertible v [''ph'', ''temp'', ''ch4'', ''pressure''] \<longrightarrow>
        validateSensorData v = Inl TypeError"
    by (simp add: validateSensorData_eq)
  show "is_object v \<and> \<not> convertible v [''ph_error'', ''ph_delta_error'', ''temp_error'', ''temp_delta_error''] \<longrightarrow>
        validateSensorErrors v = Inl TypeError"
    by (simp add: validateSensorErrors_eq)
  show "is_object v \<and> \<not> convertible v [''pump_base'', ''pump_acid'', ''heater'', ''solenoid'', ''stirrer''] \<longrightarrow>
        validateActuatorData v = Inl TypeError"
    by (simp add: validateActuatorData_eq)
  show "is_object v \<and> convertible v [''ph'', ''temp'', ''ch4'', ''pressure''] \<longrightarrow>
        (\<exists>r. validateSensorData v = Inr r)"
    by (simp add: validateSensorData_eq)
  show "is_object v \<and> convertible v [''ph_error'', ''ph_delta_error'', ''temp_error'', ''temp_delta_error''] \<longrightarrow>
        (\<exists>r. validateSensorErrors v = Inr r)"
    by (simp add: validateSensorErrors_eq)
  show "is_object v \<and> convertible v [''pump_base'', ''pump_acid'', ''heater'', ''solenoid'', ''stirrer''] \<longrightarrow>
        (\<exists>r. validateActuatorData v = Inr r)"
    by (simp add: validateActuatorData_eq)
  show "validateSensorData v = Inr sr \<longrightarrow>
        sanitizeFloatValue (js_prop v ''ph'') = Inr (ph sr)
        \<and> sanitizeFloatValue (js_prop v ''temp'') = Inr (temp sr)
        \<and> sanitizeFloatValue (js_prop v ''ch4'') = Inr (ch4 sr)
        \<and> sanitizeFloatValue (js_prop v ''pressure'') = Inr (pressure sr)"
    by (auto simp add: validateSensorData_eq sanitize_eq convertible_def split: if_splits)
  show "validateSensorErrors v = Inr er \<longrightarrow>
        sanitizeFloatValue (js_prop v ''ph_error'') = Inr (ph_error er)
        \<and> sanitizeFloatValue (js_prop v ''ph_delta_error'') = Inr (ph_delta_error er)
        \<and> sanitizeFloatValue (js_prop v ''temp_error'') = Inr (temp_error er)
        \<and> sanitizeFloatValue (js_prop v ''temp_delta_error'') = Inr (temp_delta_error er)"
    by (auto simp add: validateSensorErrors_eq sanitize_eq convertible_def split: if_splits)
  show "validateActuatorData v = Inr ar \<longrightarrow>
        sanitizeFloatValue (js_prop v ''pump_base'') = Inr (pump_base ar)
        \<and> sanitizeFloatValue (js_prop v ''pump_acid'') = Inr (pump_acid ar)
        \<and> sanitizeFloatValue (js_prop v ''heater'') = Inr (heater ar)
        \<and> sanitizeFloatValue (js_prop v ''solenoid'') = Inr (solenoid ar)
        \<and> sanitizeFloatValue (js_prop v ''stirrer'') = Inr (stirrer ar)"
    by (auto simp add: validateActuatorData_eq sanitize_eq convertible_def split: if_splits)
  show "map_of kvs k = None \<longrightarrow> sanitizeFloatValue (js_prop (Obj kvs) k) = Inr (Fin 0)"
    by (simp add: sanitize_eq sanitize_null)
  show "(\<forall>k \<in> set [''ph'', ''temp'', ''ch4'', ''pressure'']. map_of kvs k = map_of kvs' k) \<longrightarrow>
        validateSensorData (Obj kvs) = validateSensorData (Obj kvs')"
    by (simp add: validateSensorData_def)
  show "(\<forall>k \<in> set [''ph_error'', ''ph_delta_error'', ''temp_error'', ''temp_delta_error''].
          map_of kvs k = map_of kvs' k) \<longrightarrow>
        validateSensorErrors (Obj kvs) = validateSensorErrors (Obj kvs')"
    by (simp add: validateSensorErrors_def)
  show "(\<forall>k \<in> set [''pump_base'', ''pump_acid'', ''heater'', ''solenoid'', ''stirrer''].
          map_of kvs k = map_of kvs' k) \<longrightarrow>
        validateActuatorData (Obj kvs) = validateActuatorData (Obj kvs')"
    by (simp add: validateActuatorData_def)
  show "validateSensorData (Obj []) = Inr \<lparr> ph = Fin 0, temp = Fin 0, ch4 = Fin 0, pressure = Fin 0 \<rparr>"
    by (simp add: validateSensorData_eq is_object_def convertible_def sanitize_null)
  show "validateActuatorData Null = Inl (Error ''Invalid actuators data structure'')"
    by (simp add: validateActuatorData_def)
qed

theorem validators_contract_witness:
  "validateSensorData (Obj [(''ph'', Obj [(''toString'', Num (Fin 1))])]) = Inl TypeError
   \<and> validateSensorErrors (Obj [(''temp_error'', Arr [Obj [(''toString'', Null)]])]) = Inl TypeError
   \<and> validateActuatorData (Obj [(''heater'', Obj [(''toString'', Str ''x'')])]) = Inl TypeError
   \<and> (\<exists>r. validateSensorData (Arr []) = Inr r)
   \<and> (\<exists>r. validateSensorErrors (Arr []) = Inr r)
   \<and> (\<exists>r. validateActuatorData (Arr []) = Inr r)
   \<and> sanitizeFloatValue (js_prop (Obj [(''ph'', Null), (''junk'', Num (Fin 1))]) ''ph'') = Inr (Fin 0)
   \<and> sanitizeFloatValue (js_prop (Obj [(''ph'', Null), (''junk'', Num (Fin 1))]) ''temp_error'')
       = Inr (Fin 0)
   \<and> sanitizeFloatValue (js_prop (Obj [(''ph'', Null), (''junk'', Num (Fin 1))]) ''heater'')
       = Inr (Fin 0)
   \<and> sanitizeFloatValue (js_prop (Obj [(''ph'', Null), (''junk'', Num (Fin 1))]) ''temp'') = Inr (Fin 0)
   \<and> validateSensorData (Obj [(''ph'', Null), (''junk'', Num (Fin 1))])
     = validateSensorData (Obj [(''ph'', Null)])
   \<and> validateSensorErrors (Obj [(''ph'', Null), (''junk'', Num (Fin 1))])
     = validateSensorErrors (Obj [(''ph'', Null)])
   \<and> validateActuatorData (Obj [(''ph'', Null), (''junk'', Num (Fin 1))])
     = validateActuatorData (Obj [(''ph'', Null)])"
proof -
  let ?z = "Obj [(''ph'', Null), (''junk'', Num (Fin 1))]"
  note t1 = validators_contract[where v = "Obj [(''ph'', Obj [(''toString'', Num (Fin 1))])]"]
    and t2 = validators_contract[where v = "Obj [(''temp_error'', Arr [Obj [(''toString'', Null)]])]"]
    and t3 = validators_contract[where v = "Obj [(''heater'', Obj [(''toString'', Str ''x'')])]"]
    and a = validators_contract[where v = "Arr []"]
    and c = validators_contract[where v = ?z and k = "''temp''"
      and kvs = "[(''ph'', Null), (''junk'', Num (Fin 1))]" and kvs' = "[(''ph'', Null)]"
      and sr = "\<lparr> ph = Fin 0, temp = Fin 0, ch4 = Fin 0, pressure = Fin 0 \<rparr>"
      and er = "\<lparr> ph_error = Fin 0, ph_delta_error = Fin 0, temp_error = Fin 0,
                  temp_delta_error = Fin 0 \<rparr>"
      and ar = "\<lparr> pump_base = Fin 0, pump_acid = Fin 0, heater = Fin 0, solenoid = Fin 0,
                  stirrer = Fin 0 \<rparr>"]
  have h1: "is_object (Obj [(''ph'', Obj [(''toString'', Num (Fin 1))])])
            \<and> \<not> convertible (Obj [(''ph'', Obj [(''toString'', Num (Fin 1))])])
                  [''ph'', ''temp'', ''ch4'', ''pressure'']"
    by (simp add: is_object_def convertible_def)
  have h2: "is_object (Obj [(''temp_error'', Arr [Obj [(''toString'', Null)]])])
            \<and> \<not> convertible (Obj [(''temp_error'', Arr [Obj [(''toString'', Null)]])])
                  [''ph_error'', ''ph_delta_error'', ''temp_error'', ''temp_delta_error'']"
    by (simp add: is_object_def convertible_def)
  have h3: "is_object (Obj [(''heater'', Obj [(''toString'', Str ''x'')])])
            \<and> \<not> convertible (Obj [(''heater'', Obj [(''toString'', Str ''x'')])])
                  [''pump_base'', ''pump_acid'', ''heater'', ''solenoid'', ''stirrer'']"
    by (simp add: is_object_def convertible_def)
  have o1: "is_object (Arr []) \<and> convertible (Arr []) [''ph'', ''temp'', ''ch4'', ''pressure'']"
    by (simp add: is_object_def convertible_def)
  have o2: "is_object (Arr [])
            \<and> convertible (Arr []) [''ph_error'', ''ph_delta_error'', ''temp_error'', ''temp_delta_error'']"
    by (simp add: is_object_def convertible_def)
  have o3: "is_object (Arr [])
            \<and> convertible (Arr []) [''pump_base'', ''pump_acid'', ''heater'', ''solenoid'', ''stirrer'']"
    by (simp add: is_object_def convertible_def)
  have r1: "validateSensorData ?z = Inr \<lparr> ph = Fin 0, temp = Fin 0, ch4 = Fin 0, pressure = Fin 0 \<rparr>"
    by (simp add: validateSensorData_eq is_object_def convertible_def sanitize_null)
  have r2: "validateSensorErrors ?z
            = Inr \<lparr> ph_error = Fin 0, ph_delta_error = Fin 0, temp_error = Fin 0,
                     temp_delta_error = Fin 0 \<rparr>"
    by (simp add: validateSensorErrors_eq is_object_def convertible_def sanitize_null)
  have r3: "validateActuatorData ?z
            = Inr \<lparr> pump_base = Fin 0, pump_acid = Fin 0, heater = Fin 0, solenoid = Fin 0,
                     stirrer = Fin 0 \<rparr>"
    by (simp add: validateActuatorData_eq is_object_def convertible_def sanitize_null)
  have m: "map_of [(''ph'', Null), (''junk'', Num (Fin 1))] ''temp'' = None" by simp
  have q1: "\<forall>k \<in> set [''ph'', ''temp'', ''ch4'', ''pressure''].
      map_of [(''ph'', Null), (''junk'', Num (Fin 1))] k = map_of [(''ph'', Null)] k" by simp
  have q2: "\<forall>k \<in> set [''ph_error'', ''ph_delta_error'', ''temp_error'', ''temp_delta_error''].
      map_of [(''ph'', Null), (''junk'', Num (Fin 1))] k = map_of [(''ph'', Null)] k" by simp
  have q3: "\<forall>k \<in> set [''pump_base'', ''pump_acid'', ''heater'', ''solenoid'', ''stirrer''].
      map_of [(''ph'', Null), (''junk'', Num (Fin 1))] k = map_of [(''ph'', Null)] k" by simp
  have 1: "validateSensorData (Obj [(''ph'', Obj [(''toString'', Num (Fin 1))])]) = Inl TypeError"
    using t1[THEN conjunct2, THEN conjunct2, THEN conjunct2, THEN conjunct1] h1 by blast
  have 2: "validateSensorErrors (Obj [(''temp_error'', Arr [Obj [(''toString'', Null)]])]) = Inl TypeError"
    using t2[THEN conjunct2, THEN conjunct2, THEN conjunct2, THEN conjunct2, THEN conjunct1] h2 by blast
  have 3: "validateActuatorData (Obj [(''heater'', Obj [(''toString'', Str ''x'')])]) = Inl TypeError"
    using t3[THEN conjunct2, THEN conjunct2, THEN conjunct2, THEN conjunct2, THEN conjunct2, THEN conjunct1] h3 by blast
  have 4: "\<exists>r. validateSensorData (Arr []) = Inr r" using a[THEN conjunct2, THEN conjunct2, THEN conjunct2, THEN conjunct2, THEN conjunct2, THEN conjunct2, THEN conjunct1] o1 by blast
  have 5: "\<exists>r. validateSensorErrors (Arr []) = Inr r" using a[THEN conjunct2, THEN conjunct2, THEN conjunct2, THEN conjunct2, THEN conjunct2, THEN conjunct2, THEN conjunct2, THEN conjunct1] o2 by blast
  have 6: "\<exists>r. validateActuatorData (Arr []) = Inr r" using a[THEN conjunct2, THEN conjunct2, THEN conjunct2, THEN conjunct2, THEN conjunct2, THEN conjunct2, THEN conjunct2, THEN conjunct2, THEN conjunct1] o3 by blast
  have "sanitizeFloatValue (js_prop ?z ''ph'')
        = Inr (ph \<lparr> ph = Fin 0, temp = Fin 0, ch4 = Fin 0, pressure = Fin 0 \<rparr>)"
    using c[THEN conjunct2, THEN conjunct2, THEN conjunct2, THEN conjunct2, THEN conjunct2, THEN conjunct2, THEN conjunct2, THEN conjunct2, THEN conjunct2, THEN conjunct1] r1 by blast
  then have 7: "sanitizeFloatValue (js_prop ?z ''ph'') = Inr (Fin 0)" by simp
  have "sanitizeFloatValue (js_prop ?z ''temp_error'')
        = Inr (temp_error \<lparr> ph_error = Fin 0, ph_delta_error = Fin 0, temp_error = Fin 0,
                  temp_delta_error = Fin 0 \<rparr>)"
    using c[THEN conjunct2, THEN conjunct2, THEN conjunct2, THEN conjunct2, THEN conjunct2, THEN conjunct2, THEN conjunct2, THEN conjunct2, THEN conjunct2, THEN conjunct2, THEN conjunct1] r2 by blast
  then have 8: "sanitizeFloatValue (js_prop ?z ''temp_error'') = Inr (Fin 0)" by simp
  have "sanitizeFloatValue (js_prop ?z ''heater'')
        = Inr (heater \<lparr> pump_base = Fin 0, pump_acid = Fin 0, heater = Fin 0, solenoid = Fin 0,
                  stirrer = Fin 0 \<rparr>)"
    using c[THEN conjunct2, THEN conjunct2, THEN conjunct2, THEN conjunct2, THEN conjunct2, THEN conjunct2, THEN conjunct2, THEN conjunct2, THEN conjunct2, THEN conjunct2, THEN conjunct2, THEN conjunct1] r3 by blast
  then have 9: "sanitizeFloatValue (js_prop ?z ''heater'') = Inr (Fin 0)" by simp
  have 10: "sanitizeFloatValue (js_prop ?z ''temp'') = Inr (Fin 0)" using c[THEN conjunct2, THEN conjunct2, THEN conjunct2, THEN conjunct2, THEN conjunct2, THEN conjunct2, THEN conjunct2, THEN conjunct2, THEN conjunct2, THEN conjunct2, THEN conjunct2, THEN conjunct2, THEN conjunct1] m by blast
  have 11: "validateSensorData ?z = validateSensorData (Obj [(''ph'', Null)])" using c[THEN conjunct2, THEN conjunct2, THEN conjunct2, THEN conjunct2, THEN conjunct2, THEN conjunct2, THEN conjunct2, THEN conjunct2, THEN conjunct2, THEN conjunct2, THEN conjunct2, THEN conjunct2, THEN conjunct2, THEN conjunct1] q1 by blast
  have 12: "validateSensorErrors ?z = validateSensorErrors (Obj [(''ph'', Null)])" using c[THEN conjunct2, THEN conjunct2, THEN conjunct2, THEN conjunct2, THEN conjunct2, THEN conjunct2, THEN conjunct2, THEN conjunct2, THEN conjunct2, THEN conjunct2, THEN conjunct2, THEN conjunct2, THEN conjunct2, THEN conjunct2, THEN conjunct1] q2 by blast
  have 13: "validateActuatorData ?z = validateActuatorData (Obj [(''ph'', Null)])" using c[THEN conjunct2, THEN conjunct2, THEN conjunct2, THEN conjunct2, THEN conjunct2, THEN conjunct2, THEN conjunct2, THEN conjunct2, THEN conjunct2, THEN conjunct2, THEN conjunct2, THEN conjunct2, THEN conjunct2, THEN conjunct2, THEN conjunct2, THEN conjunct1] q3 by blast
  show ?thesis by (intro conjI 1 2 3 4 5 6 7 8 9 10 11 12 13)
qed

text \<open>
  The claim as stated fails on two inputs. \<open>{ph: {toString: 1}}\<close> is a keyed mapping, yet
  \<open>validateSensorData\<close> neither returns a record nor throws its structural error: the
  \<open>TypeError\<close> of the sanitizer leaves it. And an array, which is not a keyed mapping, passes
  the guard: \<open>validateSensorData([])\<close> is the all-zero record.
\<close>

theorem validators_contract_counterexample:
  "validateSensorData (Obj [(''ph'', Obj [(''toString'', Num (Fin 1))])]) = Inl TypeError
   \<and> validateSensorData (Arr [])
       = Inr \<lparr> ph = Fin 0, temp = Fin 0, ch4 = Fin 0, pressure = Fin 0 \<rparr>"
  by (simp add: validateSensorData_eq is_object_def convertible_def sanitize_null)

section \<open>Properties of the ingestion pipeline\<close>

lemma is_object_truthy: "is_object v \<Longrightarrow> truthy v"
  by (cases v) (simp_all add: is_object_def)

lemma validated_is_truthy:
  "validateSensorData v = Inr r \<Longrightarrow> truthy v"
  "validateSensorErrors v = Inr e \<Longrightarrow> truthy v"
  "validateActuatorData v = Inr a \<Longrightarrow> truthy v"
  by (auto simp add: validateSensorData_eq validateSensorErrors_eq validateActuatorData_eq
      is_object_truthy split: if_splits)

lemma validate_empty:
  "validateSensorData (Obj []) = Inr \<lparr> ph = Fin 0, temp = Fin 0, ch4 = Fin 0, pressure = Fin 0 \<rparr>"
  "validateSensorErrors (Obj [])
     = Inr \<lparr> ph_error = Fin 0, ph_delta_error = Fin 0, temp_error = Fin 0, temp_delta_error = Fin 0 \<rparr>"
  "validateActuatorData (Obj [])
     = Inr \<lparr> pump_base = Fin 0, pump_acid = Fin 0, heater = Fin 0, solenoid = Fin 0, stirrer = Fin 0 \<rparr>"
  by (simp_all add: validateSensorData_eq validateSensorErrors_eq validateActuatorData_eq
      is_object_def convertible_def sanitize_null)

lemma truthy_prop_get: "truthy (js_prop p k) \<Longrightarrow> js_get p k = Inr (js_prop p k)"
  by (cases p) (simp_all add: js_get_def)

lemma insertSensorData_Inr:
  "validateSensorData sensors = Inr row \<Longrightarrow>
   insertSensorData gw sensors s
     = (reply_id (gw (calls s) (InsertSensors row)), s\<lparr>calls := calls s @ [InsertSensors row]\<rparr>)"
  by (simp add: insertSensorData_def send_def)

lemma insertSensorData_Inl:
  "validateSensorData sensors = Inl e \<Longrightarrow> insertSensorData gw sensors s = (Null, s)"
  by (simp add: insertSensorData_def)

lemma insertSensorErrors_Inr:
  "validateSensorErrors errs = Inr row \<Longrightarrow>
   insertSensorErrors gw sid errs s = s\<lparr>calls := calls s @ [InsertSensorErrors sid row]\<rparr>"
  by (simp add: insertSensorErrors_def send_def)

lemma insertSensorErrors_Inl:
  "validateSensorErrors errs = Inl e \<Longrightarrow> insertSensorErrors gw sid errs s = s"
  by (simp add: insertSensorErrors_def)

lemma insertActuatorData_Inr:
  "validateActuatorData acts = Inr row \<Longrightarrow>
   insertActuatorData gw sid acts s = s\<lparr>calls := calls s @ [InsertActuators row]\<rparr>"
  by (simp add: insertActuatorData_def send_def)

lemma insertActuatorData_Inl:
  "validateActuatorData acts = Inl e \<Longrightarrow> insertActuatorData gw sid acts s = s"
  by (simp add: insertActuatorData_def)

lemma getLatestSensorId_eq:
  "getLatestSensorId gw s
     = (latest_id (gw (calls s) SelectLatestSensorId), s\<lparr>calls := calls s @ [SelectLatestSensorId]\<rparr>)"
  by (simp add: getLatestSensorId_def send_def)

lemma insertSensorData_frame:
  "isWarmupActive (snd (insertSensorData gw v s)) = isWarmupActive s"
  "currentSensorId (snd (insertSensorData gw v s)) = currentSensorId s"
  by (cases "validateSensorData v"; simp add: insertSensorData_Inr insertSensorData_Inl)+

lemma insertSensorErrors_frame:
  "isWarmupActive (insertSensorErrors gw i v s) = isWarmupActive s"
  "currentSensorId (insertSensorErrors gw i v s) = currentSensorId s"
  by (cases "validateSensorErrors v"; simp add: insertSensorErrors_Inr insertSensorErrors_Inl)+

lemma insertActuatorData_frame:
  "isWarmupActive (insertActuatorData gw i v s) = isWarmupActive s"
  "currentSensorId (insertActuatorData gw i v s) = currentSensorId s"
  by (cases "validateActuatorData v"; simp add: insertActuatorData_Inr insertActuatorData_Inl)+

lemma updateWarmup_frame:
  "calls (updateWarmup system s) = calls s"
  "currentSensorId (updateWarmup system s) = currentSensorId s"
  by (simp_all add: updateWarmup_def Let_def)

lemma updateWarmup_flag:
  "isWarmupActive (updateWarmup system s)
     = (if truthy system \<and> js_prop system ''warmup_active'' \<noteq> Undefined
        then js_prop system ''warmup_active'' = Num (Fin 1) else isWarmupActive s)"
  by (auto simp add: updateWarmup_def Let_def)

lemma processSensorData_warm:
  "isWarmupActive s \<Longrightarrow> processSensorData gw payload s = (Inr (), s)"
  by (simp add: processSensorData_def)

lemma processSensorData_flag:
  "isWarmupActive (snd (processSensorData gw payload s)) = isWarmupActive s"
  by (simp add: processSensorData_def case_prod_beta insertSensorData_frame
      insertSensorErrors_frame split: sum.splits)

lemma processControlData_null:
  "js_get payload ''system'' = Inl e \<Longrightarrow> processControlData gw payload s = (Inl e, s)"
  by (simp add: processControlData_def)

lemma processControlData_warm:
  "js_get payload ''system'' = Inr system \<Longrightarrow> isWarmupActive (updateWarmup system s) \<Longrightarrow>
   processControlData gw payload s = (Inr (), updateWarmup system s)"
  by (simp add: processControlData_def Let_def)

lemma processControlData_flag:
  "js_get payload ''system'' = Inr system \<Longrightarrow>
   isWarmupActive (snd (processControlData gw payload s)) = isWarmupActive (updateWarmup system s)"
  by (auto simp add: processControlData_def Let_def getLatestSensorId_eq insertActuatorData_frame
      split: prod.splits)

lemma js_get_cases: "js_get p k = Inl TypeError \<and> js_prop p k = Undefined \<or> js_get p k = Inr (js_prop p k)"
  by (cases p) (simp_all add: js_get_def)

lemma control_warm_no_calls:
  "isWarmupActive (snd (processControlData gw payload s)) \<Longrightarrow>
   calls (snd (processControlData gw payload s)) = calls s"
proof -
  assume w: "isWarmupActive (snd (processControlData gw payload s))"
  from js_get_cases[of payload "''system''"] show ?thesis
  proof
    assume "js_get payload ''system'' = Inl TypeError \<and> js_prop payload ''system'' = Undefined"
    then show ?thesis by (simp add: processControlData_null)
  next
    assume g: "js_get payload ''system'' = Inr (js_prop payload ''system'')"
    with w have "isWarmupActive (updateWarmup (js_prop payload ''system'') s)"
      by (simp add: processControlData_flag)
    with g show ?thesis by (simp add: processControlData_warm updateWarmup_frame)
  qed
qed

lemma control_flag_after:
  "isWarmupActive (snd (processControlData gw payload s))
     = (if truthy (js_prop payload ''system'')
           \<and> js_prop (js_prop payload ''system'') ''warmup_active'' \<noteq> Undefined
        then js_prop (js_prop payload ''system'') ''warmup_active'' = Num (Fin 1)
        else isWarmupActive s)"
proof -
  from js_get_cases[of payload "''system''"] show ?thesis
  proof
    assume "js_get payload ''system'' = Inl TypeError \<and> js_prop payload ''system'' = Undefined"
    then show ?thesis by (simp add: processControlData_null)
  next
    assume "js_get payload ''system'' = Inr (js_prop payload ''system'')"
    then show ?thesis by (simp only: processControlData_flag updateWarmup_flag)
  qed
qed

lemma prop_of_falsy: "\<not> truthy v \<Longrightarrow> js_prop v k = Undefined"
  by (cases v) simp_all

lemma on_message_flag_calls:
  "isWarmupActive (on_message gw topic parsed s) \<Longrightarrow> calls (on_message gw topic parsed s) = calls s"
proof (cases parsed)
  case None
  then show ?thesis by (simp add: on_message_def)
next
  case (Some payload)
  assume w: "isWarmupActive (on_message gw topic parsed s)"
  consider "topic = ''biogas/data/sensors''"
    | "topic \<noteq> ''biogas/data/sensors''" "topic = ''biogas/data/control''"
    | "topic \<noteq> ''biogas/data/sensors''" "topic \<noteq> ''biogas/data/control''" by blast
  then show ?thesis
  proof cases
    case 1
    with w Some have "isWarmupActive s" by (simp add: on_message_def processSensorData_flag)
    then show ?thesis using 1 Some by (simp add: on_message_def processSensorData_warm)
  next
    case 2
    with w Some have "isWarmupActive (snd (processControlData gw payload s))"
      by (simp add: on_message_def)
    then show ?thesis using 2 Some by (simp add: on_message_def control_warm_no_calls)
  next
    case 3
    then show ?thesis using Some by (simp add: on_message_def)
  qed
qed

section \<open>Claims about the ingestion pipeline\<close>

subsection \<open>C1: nothing is written while the warmup flag is set\<close>

text \<open>
  C1. No request is sent to the store for a message handled while the warmup flag is true.
  A sensor-topic message that arrives with the flag set returns at once: no call, no change
  of state. A control-topic message first applies its own \<open>system.warmup_active\<close> field and
  reads the flag after that; the flag is not written again, so its value after the message is
  the value the gate saw. If that value is true the message sends no call (no actuator
  insert, and no query either); in particular this holds when the flag was set on arrival and
  the message does not carry a \<open>warmup_active\<close> field other than 1. The same holds for the
  whole \<open>message\<close> handler, on every topic.
\<close>

theorem warmup_blocks_persistence:
  "(isWarmupActive s \<longrightarrow> processSensorData gw payload s = (Inr (), s))
   \<and> (isWarmupActive s \<longrightarrow> on_message gw ''biogas/data/sensors'' parsed s = s)
   \<and> (isWarmupActive (snd (processControlData gw payload s)) \<longrightarrow>
        calls (snd (processControlData gw payload s)) = calls s)
   \<and> (isWarmupActive s
        \<and> (js_prop (js_prop payload ''system'') ''warmup_active'' = Undefined
           \<or> js_prop (js_prop payload ''system'') ''warmup_active'' = Num (Fin 1)) \<longrightarrow>
        isWarmupActive (snd (processControlData gw payload s))
        \<and> calls (snd (processControlData gw payload s)) = calls s)
   \<and> (isWarmupActive (on_message gw topic parsed s) \<longrightarrow>
        calls (on_message gw topic parsed s) = calls s)"
proof (intro conjI impI)
  assume "isWarmupActive s"
  then show "processSensorData gw payload s = (Inr (), s)" by (rule processSensorData_warm)
next
  assume "isWarmupActive s"
  then show "on_message gw ''biogas/data/sensors'' parsed s = s"
    by (cases parsed) (simp_all add: on_message_def processSensorData_warm)
next
  assume "isWarmupActive (snd (processControlData gw payload s))"
  then show "calls (snd (processControlData gw payload s)) = calls s"
    by (rule control_warm_no_calls)
next
  assume a: "isWarmupActive s
        \<and> (js_prop (js_prop payload ''system'') ''warmup_active'' = Undefined
           \<or> js_prop (js_prop payload ''system'') ''warmup_active'' = Num (Fin 1))"
  then show w: "isWarmupActive (snd (processControlData gw payload s))"
    using prop_of_falsy[of "js_prop payload ''system''" "''warmup_active''"]
    by (auto simp add: control_flag_after)
  then show "calls (snd (processControlData gw payload s)) = calls s"
    by (rule control_warm_no_calls)
next
  assume "isWarmupActive (on_message gw topic parsed s)"
  then show "calls (on_message gw topic parsed s) = calls s" by (rule on_message_flag_calls)
qed

theorem warmup_blocks_persistence_witness:
  "processSensorData (\<lambda>h c. Resolved (Arr [Obj [(''id'', Num (Fin 5))]]) Null)
      (Obj [(''sensors'', Obj []), (''sensor_errors'', Obj [])])
      (initial_state\<lparr>isWarmupActive := True\<rparr>)
     = (Inr (), initial_state\<lparr>isWarmupActive := True\<rparr>)
   \<and> on_message (\<lambda>h c. Resolved (Arr [Obj [(''id'', Num (Fin 5))]]) Null) ''biogas/data/sensors''
      (Some (Obj [(''sensors'', Obj [])])) (initial_state\<lparr>isWarmupActive := True\<rparr>)
     = initial_state\<lparr>isWarmupActive := True\<rparr>
   \<and> calls (snd (processControlData (\<lambda>h c. Resolved (Arr [Obj [(''id'', Num (Fin 5))]]) Null)
        (Obj [(''actuators'', Obj [])])
        (initial_state\<lparr>isWarmupActive := True\<rparr>))) = []
   \<and> calls (snd (processControlData (\<lambda>h c. Resolved (Arr [Obj [(''id'', Num (Fin 5))]]) Null)
        (Obj [(''system'', Obj [(''warmup_active'', Num (Fin 1))]), (''actuators'', Obj [])])
        initial_state)) = []
   \<and> calls (on_message (\<lambda>h c. Resolved (Arr [Obj [(''id'', Num (Fin 5))]]) Null)
        ''biogas/data/control''
        (Some (Obj [(''system'', Obj [(''warmup_active'', Num (Fin 1))]), (''actuators'', Obj [])]))
        initial_state) = []"
proof -
  let ?gw = "\<lambda>h c. Resolved (Arr [Obj [(''id'', Num (Fin 5))]]) Null"
  let ?sw = "initial_state\<lparr>isWarmupActive := True\<rparr>"
  let ?on = "Obj [(''system'', Obj [(''warmup_active'', Num (Fin 1))]), (''actuators'', Obj [])]"
  note c = warmup_blocks_persistence[where gw = ?gw]
  have w: "isWarmupActive ?sw" by simp
  have u: "js_prop (js_prop (Obj [(''actuators'', Obj [])]) ''system'') ''warmup_active'' = Undefined"
    by simp
  have e: "calls ?sw = []" "calls initial_state = []" by (simp_all add: initial_state_def)
  have f: "isWarmupActive (snd (processControlData ?gw ?on initial_state))"
    by (simp add: control_flag_after)
  have g: "isWarmupActive (on_message ?gw ''biogas/data/control'' (Some ?on) initial_state)"
    using f by (simp add: on_message_def)
  from c[where s = ?sw and payload = "Obj [(''sensors'', Obj []), (''sensor_errors'', Obj [])]"] w
  have 1: "processSensorData ?gw (Obj [(''sensors'', Obj []), (''sensor_errors'', Obj [])]) ?sw
     = (Inr (), ?sw)" by blast
  from c[where s = ?sw and parsed = "Some (Obj [(''sensors'', Obj [])])"] w
  have 2: "on_message ?gw ''biogas/data/sensors'' (Some (Obj [(''sensors'', Obj [])])) ?sw = ?sw"
    by blast
  from c[where s = ?sw and payload = "Obj [(''actuators'', Obj [])]"] w u
  have "calls (snd (processControlData ?gw (Obj [(''actuators'', Obj [])]) ?sw)) = calls ?sw"
    by blast
  then have 3: "calls (snd (processControlData ?gw (Obj [(''actuators'', Obj [])]) ?sw)) = []"
    using e by simp
  from c[where s = initial_state and payload = ?on] f
  have "calls (snd (processControlData ?gw ?on initial_state)) = calls initial_state" by blast
  then have 4: "calls (snd (processControlData ?gw ?on initial_state)) = []" using e by simp
  from c[where s = initial_state and topic = "''biogas/data/control''" and parsed = "Some ?on"] g
  have "calls (on_message ?gw ''biogas/data/control'' (Some ?on) initial_state)
      = calls initial_state" by blast
  then have 5: "calls (on_message ?gw ''biogas/data/control'' (Some ?on) initial_state) = []"
    using e by simp
  from 1 2 3 4 5 show ?thesis by blast
qed

subsection \<open>C10: how a control message assigns the warmup flag\<close>

text \<open>
  C10. A control-topic payload in which \<open>system\<close> or \<open>system.warmup_active\<close> is absent
  leaves the warmup flag as it was. When the field is there, the flag after the message is
  true exactly if the field is the number 1.
\<close>

theorem warmup_flag_assignment:
  "(js_prop payload ''system'' = Undefined
      \<or> js_prop (js_prop payload ''system'') ''warmup_active'' = Undefined \<longrightarrow>
      isWarmupActive (snd (processControlData gw payload s)) = isWarmupActive s)
   \<and> (js_prop (js_prop payload ''system'') ''warmup_active'' \<noteq> Undefined \<longrightarrow>
      isWarmupActive (snd (processControlData gw payload s))
        = (js_prop (js_prop payload ''system'') ''warmup_active'' = Num (Fin 1)))"
  using prop_of_falsy[of "js_prop payload ''system''" "''warmup_active''"]
  by (auto simp add: control_flag_after)

theorem warmup_flag_assignment_witness:
  "isWarmupActive (snd (processControlData (\<lambda>h c. Rejects) (Obj [(''actuators'', Obj [])])
      (initial_state\<lparr>isWarmupActive := True\<rparr>)))
   \<and> \<not> isWarmupActive (snd (processControlData (\<lambda>h c. Rejects)
      (Obj [(''system'', Obj [(''warmup_active'', Str ''1'')])])
      (initial_state\<lparr>isWarmupActive := True\<rparr>)))
   \<and> isWarmupActive (snd (processControlData (\<lambda>h c. Rejects)
      (Obj [(''system'', Obj [(''warmup_active'', Num (Fin 1))])]) initial_state))"
proof -
  have 1: "isWarmupActive (snd (processControlData (\<lambda>h c. Rejects) (Obj [(''actuators'', Obj [])])
      (initial_state\<lparr>isWarmupActive := True\<rparr>)))"
    using warmup_flag_assignment[where payload = "Obj [(''actuators'', Obj [])]"
        and gw = "\<lambda>h c. Rejects" and s = "initial_state\<lparr>isWarmupActive := True\<rparr>"]
    by simp
  have 2: "\<not> isWarmupActive (snd (processControlData (\<lambda>h c. Rejects)
      (Obj [(''system'', Obj [(''warmup_active'', Str ''1'')])])
      (initial_state\<lparr>isWarmupActive := True\<rparr>)))"
    using warmup_flag_assignment[where payload = "Obj [(''system'', Obj [(''warmup_active'', Str ''1'')])]"
        and gw = "\<lambda>h c. Rejects" and s = "initial_state\<lparr>isWarmupActive := True\<rparr>"]
    by simp
  have 3: "isWarmupActive (snd (processControlData (\<lambda>h c. Rejects)
      (Obj [(''system'', Obj [(''warmup_active'', Num (Fin 1))])]) initial_state))"
    using warmup_flag_assignment[where payload = "Obj [(''system'', Obj [(''warmup_active'', Num (Fin 1))])]"
        and gw = "\<lambda>h c. Rejects" and s = initial_state]
    by simp
  from 1 2 3 show ?thesis by blast
qed

subsection \<open>C2: a sensor reading and its error margins\<close>

lemma sensor_pair_calls:
  assumes "\<not> isWarmupActive s"
    and "validateSensorData (js_prop payload ''sensors'') = Inr row"
    and "validateSensorErrors (js_prop payload ''sensor_errors'') = Inr erow"
  shows "calls (snd (processSensorData gw payload s))
           = calls s @ InsertSensors row #
               (if truthy (reply_id (gw (calls s) (InsertSensors row)))
                then [InsertSensorErrors (reply_id (gw (calls s) (InsertSensors row))) erow]
                else [])"
    and "currentSensorId (snd (processSensorData gw payload s))
           = (if truthy (reply_id (gw (calls s) (InsertSensors row)))
              then reply_id (gw (calls s) (InsertSensors row)) else currentSensorId s)"
proof -
  have t1: "truthy (js_prop payload ''sensors'')" using assms(2) by (rule validated_is_truthy)
  have t2: "truthy (js_prop payload ''sensor_errors'')" using assms(3) by (rule validated_is_truthy)
  have g: "js_get payload ''sensors'' = Inr (js_prop payload ''sensors'')"
    using t1 by (rule truthy_prop_get)
  show "calls (snd (processSensorData gw payload s))
           = calls s @ InsertSensors row #
               (if truthy (reply_id (gw (calls s) (InsertSensors row)))
                then [InsertSensorErrors (reply_id (gw (calls s) (InsertSensors row))) erow]
                else [])"
    using assms(1) t1 t2
    by (simp add: processSensorData_def g insertSensorData_Inr[OF assms(2)]
        insertSensorErrors_Inr[OF assms(3)])
  show "currentSensorId (snd (processSensorData gw payload s))
           = (if truthy (reply_id (gw (calls s) (InsertSensors row)))
              then reply_id (gw (calls s) (InsertSensors row)) else currentSensorId s)"
    using assms(1) t1 t2
    by (simp add: processSensorData_def g insertSensorData_Inr[OF assms(2)]
        insertSensorErrors_Inr[OF assms(3)])
qed

text \<open>
  C2, as the code has it. Take a sensor-topic message handled with the warmup flag off whose
  \<open>sensors\<close> and \<open>sensor_errors\<close> both pass their validator (each is an object or an array,
  and none of the fields read from it throws when converted). The handler sends exactly one
  insert of the validated reading. If the reply carries no error and \<open>data[0].id\<close> is a truthy
  id that can be printed, exactly one insert of the validated error margins follows, carrying
  that id as \<open>sensor_id\<close>, and the id becomes the current sensor id. If the insert fails
  (the request is rejected, the reply carries an error, \<open>data[0].id\<close> cannot be read, or
  the id is falsy or cannot be printed), no error-margin insert is sent and the current
  sensor id stays.
\<close>

theorem sensor_then_error_margins:
  assumes "\<not> isWarmupActive s"
    and "validateSensorData (js_prop payload ''sensors'') = Inr row"
    and "validateSensorErrors (js_prop payload ''sensor_errors'') = Inr erow"
  shows "(gw (calls s) (InsertSensors row) = Resolved d err \<and> \<not> truthy err
            \<and> js_index0 d = Inr r \<and> js_get r ''id'' = Inr i
            \<and> truthy i \<and> \<not> to_string_throws i \<longrightarrow>
            calls (snd (processSensorData gw payload s))
              = calls s @ [InsertSensors row, InsertSensorErrors i erow]
            \<and> currentSensorId (snd (processSensorData gw payload s)) = i)
         \<and> (gw (calls s) (InsertSensors row) = Rejects
            \<or> gw (calls s) (InsertSensors row) = Resolved d err
               \<and> (truthy err
                  \<or> (\<exists>e. js_index0 d = Inl e)
                  \<or> js_index0 d = Inr r
                     \<and> ((\<exists>e. js_get r ''id'' = Inl e)
                        \<or> js_get r ''id'' = Inr i \<and> (\<not> truthy i \<or> to_string_throws i))) \<longrightarrow>
            calls (snd (processSensorData gw payload s)) = calls s @ [InsertSensors row]
            \<and> currentSensorId (snd (processSensorData gw payload s)) = currentSensorId s)"
proof (intro conjI impI)
  assume a: "gw (calls s) (InsertSensors row) = Resolved d err \<and> \<not> truthy err
            \<and> js_index0 d = Inr r \<and> js_get r ''id'' = Inr i
            \<and> truthy i \<and> \<not> to_string_throws i"
  then have "reply_id (gw (calls s) (InsertSensors row)) = i" by (simp add: reply_id_def)
  with a show "calls (snd (processSensorData gw payload s))
              = calls s @ [InsertSensors row, InsertSensorErrors i erow]"
    and "currentSensorId (snd (processSensorData gw payload s)) = i"
    by (simp_all add: sensor_pair_calls[OF assms])
next
  assume a: "gw (calls s) (InsertSensors row) = Rejects
            \<or> gw (calls s) (InsertSensors row) = Resolved d err
               \<and> (truthy err
                  \<or> (\<exists>e. js_index0 d = Inl e)
                  \<or> js_index0 d = Inr r
                     \<and> ((\<exists>e. js_get r ''id'' = Inl e)
                        \<or> js_get r ''id'' = Inr i \<and> (\<not> truthy i \<or> to_string_throws i)))"
  then have "\<not> truthy (reply_id (gw (calls s) (InsertSensors row)))"
    by (auto simp add: reply_id_def split: if_splits)
  then show "calls (snd (processSensorData gw payload s)) = calls s @ [InsertSensors row]"
    and "currentSensorId (snd (processSensorData gw payload s)) = currentSensorId s"
    by (simp_all add: sensor_pair_calls[OF assms])
qed

theorem sensor_then_error_margins_witness:
  "calls (snd (processSensorData (\<lambda>h c. Resolved (Arr [Obj [(''id'', Num (Fin 5))]]) Null)
      (Obj [(''sensors'', Obj []), (''sensor_errors'', Obj [])]) initial_state))
     = [InsertSensors \<lparr> ph = Fin 0, temp = Fin 0, ch4 = Fin 0, pressure = Fin 0 \<rparr>,
        InsertSensorErrors (Num (Fin 5))
          \<lparr> ph_error = Fin 0, ph_delta_error = Fin 0, temp_error = Fin 0, temp_delta_error = Fin 0 \<rparr>]
   \<and> currentSensorId (snd (processSensorData (\<lambda>h c. Resolved (Arr [Obj [(''id'', Num (Fin 5))]]) Null)
      (Obj [(''sensors'', Obj []), (''sensor_errors'', Obj [])]) initial_state)) = Num (Fin 5)
   \<and> calls (snd (processSensorData (\<lambda>h c. Rejects)
      (Obj [(''sensors'', Obj []), (''sensor_errors'', Obj [])]) initial_state))
     = [InsertSensors \<lparr> ph = Fin 0, temp = Fin 0, ch4 = Fin 0, pressure = Fin 0 \<rparr>]
   \<and> currentSensorId (snd (processSensorData (\<lambda>h c. Rejects)
      (Obj [(''sensors'', Obj []), (''sensor_errors'', Obj [])]) initial_state)) = Null
   \<and> calls (snd (processSensorData (\<lambda>h c. Resolved (Arr [Obj [(''id'', Num (Fin 5))]]) (Str ''boom''))
      (Obj [(''sensors'', Obj []), (''sensor_errors'', Obj [])]) initial_state))
     = [InsertSensors \<lparr> ph = Fin 0, temp = Fin 0, ch4 = Fin 0, pressure = Fin 0 \<rparr>]
   \<and> calls (snd (processSensorData (\<lambda>h c. Resolved Null Null)
      (Obj [(''sensors'', Obj []), (''sensor_errors'', Obj [])]) initial_state))
     = [InsertSensors \<lparr> ph = Fin 0, temp = Fin 0, ch4 = Fin 0, pressure = Fin 0 \<rparr>]
   \<and> calls (snd (processSensorData (\<lambda>h c. Resolved (Arr []) Null)
      (Obj [(''sensors'', Obj []), (''sensor_errors'', Obj [])]) initial_state))
     = [InsertSensors \<lparr> ph = Fin 0, temp = Fin 0, ch4 = Fin 0, pressure = Fin 0 \<rparr>]
   \<and> calls (snd (processSensorData (\<lambda>h c. Resolved (Arr [Obj [(''id'', Num (Fin 0))]]) Null)
      (Obj [(''sensors'', Obj []), (''sensor_errors'', Obj [])]) initial_state))
     = [InsertSensors \<lparr> ph = Fin 0, temp = Fin 0, ch4 = Fin 0, pressure = Fin 0 \<rparr>]
   \<and> calls (snd (processSensorData
      (\<lambda>h c. Resolved (Arr [Obj [(''id'', Obj [(''toString'', Num (Fin 1))])]]) Null)
      (Obj [(''sensors'', Obj []), (''sensor_errors'', Obj [])]) initial_state))
     = [InsertSensors \<lparr> ph = Fin 0, temp = Fin 0, ch4 = Fin 0, pressure = Fin 0 \<rparr>]"
proof -
  let ?p = "Obj [(''sensors'', Obj []), (''sensor_errors'', Obj [])]"
  have w: "\<not> isWarmupActive initial_state" by (simp add: initial_state_def)
  have a: "validateSensorData (js_prop ?p ''sensors'')
      = Inr \<lparr> ph = Fin 0, temp = Fin 0, ch4 = Fin 0, pressure = Fin 0 \<rparr>"
    by (simp add: validate_empty)
  have b: "validateSensorErrors (js_prop ?p ''sensor_errors'')
      = Inr \<lparr> ph_error = Fin 0, ph_delta_error = Fin 0, temp_error = Fin 0, temp_delta_error = Fin 0 \<rparr>"
    by (simp add: validate_empty)
  note t = sensor_then_error_margins[OF w a b]
  have 1: "calls (snd (processSensorData (\<lambda>h c. Resolved (Arr [Obj [(''id'', Num (Fin 5))]]) Null)
        ?p initial_state))
      = [InsertSensors \<lparr> ph = Fin 0, temp = Fin 0, ch4 = Fin 0, pressure = Fin 0 \<rparr>,
         InsertSensorErrors (Num (Fin 5))
           \<lparr> ph_error = Fin 0, ph_delta_error = Fin 0, temp_error = Fin 0, temp_delta_error = Fin 0 \<rparr>]
     \<and> currentSensorId (snd (processSensorData (\<lambda>h c. Resolved (Arr [Obj [(''id'', Num (Fin 5))]]) Null)
        ?p initial_state)) = Num (Fin 5)"
    using t[where gw = "\<lambda>h c. Resolved (Arr [Obj [(''id'', Num (Fin 5))]]) Null"
        and d = "Arr [Obj [(''id'', Num (Fin 5))]]" and err = Null
        and r = "Obj [(''id'', Num (Fin 5))]" and i = "Num (Fin 5)", THEN conjunct1]
    by (simp add: initial_state_def js_get_def)
  have 2: "calls (snd (processSensorData (\<lambda>h c. Rejects) ?p initial_state))
      = [InsertSensors \<lparr> ph = Fin 0, temp = Fin 0, ch4 = Fin 0, pressure = Fin 0 \<rparr>]
     \<and> currentSensorId (snd (processSensorData (\<lambda>h c. Rejects) ?p initial_state)) = Null"
    using t[where gw = "\<lambda>h c. Rejects", THEN conjunct2]
    by (simp add: initial_state_def)
  have 3: "calls (snd (processSensorData
        (\<lambda>h c. Resolved (Arr [Obj [(''id'', Num (Fin 5))]]) (Str ''boom'')) ?p initial_state))
      = [InsertSensors \<lparr> ph = Fin 0, temp = Fin 0, ch4 = Fin 0, pressure = Fin 0 \<rparr>]"
    using t[where gw = "\<lambda>h c. Resolved (Arr [Obj [(''id'', Num (Fin 5))]]) (Str ''boom'')"
        and d = "Arr [Obj [(''id'', Num (Fin 5))]]" and err = "Str ''boom''", THEN conjunct2]
    by (simp add: initial_state_def)
  have 4: "calls (snd (processSensorData (\<lambda>h c. Resolved Null Null) ?p initial_state))
      = [InsertSensors \<lparr> ph = Fin 0, temp = Fin 0, ch4 = Fin 0, pressure = Fin 0 \<rparr>]"
    using t[where gw = "\<lambda>h c. Resolved Null Null" and d = Null and err = Null, THEN conjunct2]
    by (simp add: initial_state_def)
  have 5: "calls (snd (processSensorData (\<lambda>h c. Resolved (Arr []) Null) ?p initial_state))
      = [InsertSensors \<lparr> ph = Fin 0, temp = Fin 0, ch4 = Fin 0, pressure = Fin 0 \<rparr>]"
    using t[where gw = "\<lambda>h c. Resolved (Arr []) Null" and d = "Arr []" and err = Null
        and r = Undefined, THEN conjunct2]
    by (simp add: initial_state_def js_get_def)
  have 6: "calls (snd (processSensorData (\<lambda>h c. Resolved (Arr [Obj [(''id'', Num (Fin 0))]]) Null)
        ?p initial_state))
      = [InsertSensors \<lparr> ph = Fin 0, temp = Fin 0, ch4 = Fin 0, pressure = Fin 0 \<rparr>]"
    using t[where gw = "\<lambda>h c. Resolved (Arr [Obj [(''id'', Num (Fin 0))]]) Null"
        and d = "Arr [Obj [(''id'', Num (Fin 0))]]" and err = Null
        and r = "Obj [(''id'', Num (Fin 0))]" and i = "Num (Fin 0)", THEN conjunct2]
    by (simp add: initial_state_def js_get_def)
  have 7: "calls (snd (processSensorData
        (\<lambda>h c. Resolved (Arr [Obj [(''id'', Obj [(''toString'', Num (Fin 1))])]]) Null)
        ?p initial_state))
      = [InsertSensors \<lparr> ph = Fin 0, temp = Fin 0, ch4 = Fin 0, pressure = Fin 0 \<rparr>]"
    using t[where gw = "\<lambda>h c. Resolved (Arr [Obj [(''id'', Obj [(''toString'', Num (Fin 1))])]]) Null"
        and d = "Arr [Obj [(''id'', Obj [(''toString'', Num (Fin 1))])]]" and err = Null
        and r = "Obj [(''id'', Obj [(''toString'', Num (Fin 1))])]"
        and i = "Obj [(''toString'', Num (Fin 1))]", THEN conjunct2]
    by (simp add: initial_state_def js_get_def)
  from 1 2 3 4 5 6 7 show ?thesis by simp
qed

text \<open>
  The claim as stated, for every payload that contains both fields, fails when a field is
  there but does not pass its validator. With \<open>{ sensors: {}, sensor_errors: 'n/a' }\<close> and a
  store that answers the insert with id 5, the reading is inserted and no error margins are.
  With \<open>{ sensors: { ph: { toString: 1 } }, sensor_errors: {} }\<close> the sanitizer throws inside
  \<open>insertSensorData\<close>, which catches the exception: nothing is inserted at all.
\<close>

theorem sensor_then_error_margins_counterexample:
  "calls (snd (processSensorData (\<lambda>h c. Resolved (Arr [Obj [(''id'', Num (Fin 5))]]) Null)
      (Obj [(''sensors'', Obj []), (''sensor_errors'', Str ''n/a'')]) initial_state))
     = [InsertSensors \<lparr> ph = Fin 0, temp = Fin 0, ch4 = Fin 0, pressure = Fin 0 \<rparr>]
   \<and> calls (snd (processSensorData (\<lambda>h c. Resolved (Arr [Obj [(''id'', Num (Fin 5))]]) Null)
      (Obj [(''sensors'', Obj [(''ph'', Obj [(''toString'', Num (Fin 1))])]),
            (''sensor_errors'', Obj [])]) initial_state))
     = []"
  by (simp add: processSensorData_def initial_state_def js_get_def insertSensorData_def
      insertSensorErrors_def validateSensorData_eq validateSensorErrors_eq is_object_def
      convertible_def send_def reply_id_def sanitize_null)

subsection \<open>C3: which sensor id an actuator record is tied to\<close>

text \<open>
  C3. Take a control-topic message that carries \<open>actuators\<close> and is handled with the warmup
  flag off (after the message's own update of the flag). If the current sensor id is set, no
  query is sent: the only call is the insert of the validated actuators (none when they do
  not validate). If it is not set, the first call is the query for the latest sensor id. When
  the query is rejected, answers with an error, with no row, or with a row whose \<open>id\<close> is
  falsy, that query is the only call: no insert is sent. When it answers without an error
  with a row whose \<open>id\<close> is truthy, the insert of the validated actuators follows the
  query. The current sensor id is not changed by a control message.
\<close>

theorem actuator_sensor_id_resolution:
  assumes "\<not> isWarmupActive (updateWarmup (js_prop payload ''system'') s)"
    and "truthy (js_prop payload ''actuators'')"
  shows "(truthy (currentSensorId s) \<longrightarrow>
            calls (snd (processControlData gw payload s))
              = calls s @ (case validateActuatorData (js_prop payload ''actuators'') of
                             Inl e \<Rightarrow> [] | Inr row \<Rightarrow> [InsertActuators row]))
         \<and> (\<not> truthy (currentSensorId s)
            \<and> (gw (calls s) SelectLatestSensorId = Rejects
               \<or> gw (calls s) SelectLatestSensorId = Resolved d err
                  \<and> (truthy err \<or> \<not> truthy d \<or> \<not> truthy (js_prop d ''id''))) \<longrightarrow>
            calls (snd (processControlData gw payload s)) = calls s @ [SelectLatestSensorId])
         \<and> (\<not> truthy (currentSensorId s)
            \<and> gw (calls s) SelectLatestSensorId = Resolved d err
            \<and> \<not> truthy err \<and> truthy d \<and> truthy (js_prop d ''id'') \<longrightarrow>
            calls (snd (processControlData gw payload s))
              = calls s @ SelectLatestSensorId #
                  (case validateActuatorData (js_prop payload ''actuators'') of
                     Inl e \<Rightarrow> [] | Inr row \<Rightarrow> [InsertActuators row]))
         \<and> currentSensorId (snd (processControlData gw payload s)) = currentSensorId s"
proof -
  have "payload \<noteq> Null" "payload \<noteq> Undefined" using assms(2) by auto
  then have g: "js_get payload ''system'' = Inr (js_prop payload ''system'')"
    by (simp add: js_get_def)
  have c: "calls (snd (processControlData gw payload s))
      = calls s @
          (if truthy (currentSensorId s)
           then (case validateActuatorData (js_prop payload ''actuators'') of
                   Inl e \<Rightarrow> [] | Inr row \<Rightarrow> [InsertActuators row])
           else SelectLatestSensorId #
                  (if truthy (latest_id (gw (calls s) SelectLatestSensorId))
                   then (case validateActuatorData (js_prop payload ''actuators'') of
                           Inl e \<Rightarrow> [] | Inr row \<Rightarrow> [InsertActuators row])
                   else []))"
    using assms
    by (cases "validateActuatorData (js_prop payload ''actuators'')")
      (simp_all add: processControlData_def g Let_def updateWarmup_frame getLatestSensorId_eq
        insertActuatorData_Inr insertActuatorData_Inl)
  have i: "currentSensorId (snd (processControlData gw payload s)) = currentSensorId s"
    using assms
    by (simp add: processControlData_def g Let_def updateWarmup_frame getLatestSensorId_eq
        insertActuatorData_frame)
  have n: "\<not> truthy (latest_id (gw (calls s) SelectLatestSensorId))"
    if "gw (calls s) SelectLatestSensorId = Rejects
        \<or> gw (calls s) SelectLatestSensorId = Resolved d err
           \<and> (truthy err \<or> \<not> truthy d \<or> \<not> truthy (js_prop d ''id''))"
    using that by (auto simp add: latest_id_def split: if_splits)
  have y: "truthy (latest_id (gw (calls s) SelectLatestSensorId))"
    if "gw (calls s) SelectLatestSensorId = Resolved d err
        \<and> \<not> truthy err \<and> truthy d \<and> truthy (js_prop d ''id'')"
    using that by (simp add: latest_id_def)
  show ?thesis
  proof (intro conjI impI)
    assume "truthy (currentSensorId s)"
    then show "calls (snd (processControlData gw payload s))
              = calls s @ (case validateActuatorData (js_prop payload ''actuators'') of
                             Inl e \<Rightarrow> [] | Inr row \<Rightarrow> [InsertActuators row])"
      by (simp add: c)
  next
    assume "\<not> truthy (currentSensorId s)
            \<and> (gw (calls s) SelectLatestSensorId = Rejects
               \<or> gw (calls s) SelectLatestSensorId = Resolved d err
                  \<and> (truthy err \<or> \<not> truthy d \<or> \<not> truthy (js_prop d ''id'')))"
    then show "calls (snd (processControlData gw payload s)) = calls s @ [SelectLatestSensorId]"
      using n by (simp add: c)
  next
    assume "\<not> truthy (currentSensorId s)
            \<and> gw (calls s) SelectLatestSensorId = Resolved d err
            \<and> \<not> truthy err \<and> truthy d \<and> truthy (js_prop d ''id'')"
    then show "calls (snd (processControlData gw payload s))
              = calls s @ SelectLatestSensorId #
                  (case validateActuatorData (js_prop payload ''actuators'') of
                     Inl e \<Rightarrow> [] | Inr row \<Rightarrow> [InsertActuators row])"
      using y by (simp add: c)
  next
    show "currentSensorId (snd (processControlData gw payload s)) = currentSensorId s" by (rule i)
  qed
qed

theorem actuator_sensor_id_resolution_witness:
  "calls (snd (processControlData (\<lambda>h c. Resolved (Obj [(''id'', Num (Fin 9))]) Null)
      (Obj [(''actuators'', Obj [])]) initial_state))
     = [SelectLatestSensorId,
        InsertActuators \<lparr> pump_base = Fin 0, pump_acid = Fin 0, heater = Fin 0,
                          solenoid = Fin 0, stirrer = Fin 0 \<rparr>]
   \<and> calls (snd (processControlData (\<lambda>h c. Resolved (Obj [(''id'', Num (Fin 9))]) Null)
      (Obj [(''actuators'', Obj [(''heater'', Obj [(''toString'', Num (Fin 1))])])]) initial_state))
     = [SelectLatestSensorId]
   \<and> calls (snd (processControlData (\<lambda>h c. Resolved Null (Str ''no rows''))
      (Obj [(''actuators'', Obj [])]) initial_state)) = [SelectLatestSensorId]
   \<and> calls (snd (processControlData (\<lambda>h c. Resolved (Obj [(''id'', Num (Fin 0))]) Null)
      (Obj [(''actuators'', Obj [])]) initial_state)) = [SelectLatestSensorId]
   \<and> calls (snd (processControlData (\<lambda>h c. Rejects)
      (Obj [(''actuators'', Obj [])]) initial_state)) = [SelectLatestSensorId]
   \<and> calls (snd (processControlData (\<lambda>h c. Resolved Null (Str ''no rows''))
      (Obj [(''actuators'', Obj [])]) (initial_state\<lparr>currentSensorId := Num (Fin 5)\<rparr>)))
     = [InsertActuators \<lparr> pump_base = Fin 0, pump_acid = Fin 0, heater = Fin 0,
                           solenoid = Fin 0, stirrer = Fin 0 \<rparr>]
   \<and> currentSensorId (snd (processControlData (\<lambda>h c. Resolved (Obj [(''id'', Num (Fin 9))]) Null)
      (Obj [(''actuators'', Obj [])]) initial_state)) = Null
   \<and> calls (snd (processControlData (\<lambda>h c. Resolved (Obj [(''id'', Num (Fin 9))]) Null)
      (Obj [(''actuators'', Obj [(''heater'', Obj [(''toString'', Num (Fin 1))])])])
      (initial_state\<lparr>currentSensorId := Num (Fin 5)\<rparr>))) = []"
proof -
  let ?p = "Obj [(''actuators'', Obj [])]"
  let ?q = "Obj [(''actuators'', Obj [(''heater'', Obj [(''toString'', Num (Fin 1))])])]"
  have w: "\<not> isWarmupActive (updateWarmup (js_prop ?p ''system'') s)"
    if "\<not> isWarmupActive s" for s
    using that by (simp add: updateWarmup_def)
  have w': "\<not> isWarmupActive (updateWarmup (js_prop ?q ''system'') s)"
    if "\<not> isWarmupActive s" for s
    using that by (simp add: updateWarmup_def)
  have t: "truthy (js_prop ?p ''actuators'')" by simp
  have t': "truthy (js_prop ?q ''actuators'')" by simp
  note v = validate_empty(3)
  have v': "validateActuatorData (Obj [(''heater'', Obj [(''toString'', Num (Fin 1))])])
     = Inl TypeError"
    by (simp add: validateActuatorData_eq is_object_def convertible_def)
  note c = actuator_sensor_id_resolution[OF w t] and c' = actuator_sensor_id_resolution[OF w' t']
  have 1: "calls (snd (processControlData (\<lambda>h c. Resolved (Obj [(''id'', Num (Fin 9))]) Null)
      ?p initial_state))
     = [SelectLatestSensorId,
        InsertActuators \<lparr> pump_base = Fin 0, pump_acid = Fin 0, heater = Fin 0,
                          solenoid = Fin 0, stirrer = Fin 0 \<rparr>]"
    using c[where s = initial_state and gw = "\<lambda>h c. Resolved (Obj [(''id'', Num (Fin 9))]) Null"
        and d = "Obj [(''id'', Num (Fin 9))]" and err = Null,
        THEN conjunct2, THEN conjunct2, THEN conjunct1]
    by (simp add: initial_state_def v)
  have 2: "calls (snd (processControlData (\<lambda>h c. Resolved (Obj [(''id'', Num (Fin 9))]) Null)
      ?q initial_state)) = [SelectLatestSensorId]"
    using c'[where s = initial_state and gw = "\<lambda>h c. Resolved (Obj [(''id'', Num (Fin 9))]) Null"
        and d = "Obj [(''id'', Num (Fin 9))]" and err = Null,
        THEN conjunct2, THEN conjunct2, THEN conjunct1]
    by (simp add: initial_state_def v')
  have 3: "calls (snd (processControlData (\<lambda>h c. Resolved Null (Str ''no rows''))
      ?p initial_state)) = [SelectLatestSensorId]"
    using c[where s = initial_state and gw = "\<lambda>h c. Resolved Null (Str ''no rows'')"
        and d = Null and err = "Str ''no rows''", THEN conjunct2, THEN conjunct1]
    by (simp add: initial_state_def)
  have 4: "calls (snd (processControlData (\<lambda>h c. Resolved (Obj [(''id'', Num (Fin 0))]) Null)
      ?p initial_state)) = [SelectLatestSensorId]"
    using c[where s = initial_state and gw = "\<lambda>h c. Resolved (Obj [(''id'', Num (Fin 0))]) Null"
        and d = "Obj [(''id'', Num (Fin 0))]" and err = Null, THEN conjunct2, THEN conjunct1]
    by (simp add: initial_state_def)
  have 5: "calls (snd (processControlData (\<lambda>h c. Rejects) ?p initial_state))
     = [SelectLatestSensorId]"
    using c[where s = initial_state and gw = "\<lambda>h c. Rejects", THEN conjunct2, THEN conjunct1]
    by (simp add: initial_state_def)
  have 6: "calls (snd (processControlData (\<lambda>h c. Resolved Null (Str ''no rows''))
      ?p (initial_state\<lparr>currentSensorId := Num (Fin 5)\<rparr>)))
     = [InsertActuators \<lparr> pump_base = Fin 0, pump_acid = Fin 0, heater = Fin 0,
                           solenoid = Fin 0, stirrer = Fin 0 \<rparr>]"
    using c[where s = "initial_state\<lparr>currentSensorId := Num (Fin 5)\<rparr>"
        and gw = "\<lambda>h c. Resolved Null (Str ''no rows'')", THEN conjunct1]
    by (simp add: initial_state_def v)
  have 7: "currentSensorId (snd (processControlData
      (\<lambda>h c. Resolved (Obj [(''id'', Num (Fin 9))]) Null) ?p initial_state)) = Null"
    using c[where s = initial_state and gw = "\<lambda>h c. Resolved (Obj [(''id'', Num (Fin 9))]) Null",
        THEN conjunct2, THEN conjunct2, THEN conjunct2]
    by (simp add: initial_state_def)
  have 8: "calls (snd (processControlData (\<lambda>h c. Resolved (Obj [(''id'', Num (Fin 9))]) Null)
      ?q (initial_state\<lparr>currentSensorId := Num (Fin 5)\<rparr>))) = []"
    using c'[where s = "initial_state\<lparr>currentSensorId := Num (Fin 5)\<rparr>"
        and gw = "\<lambda>h c. Resolved (Obj [(''id'', Num (Fin 9))]) Null", THEN conjunct1]
    by (simp add: initial_state_def v')
  from 1 2 3 4 5 6 7 8 show ?thesis by simp
qed

subsection \<open>C5: what the sanitizer lets through to the store\<close>

lemma sanitize_of_parsed_Fin:
  "numeric_prefix v = Fin x \<Longrightarrow> sanitized v = sanitized (Num (Fin x))"
  by (cases v) (auto simp add: sanitized_def isNaN_def Let_def)

lemma sanitize_of_parsed_Inf:
  "numeric_prefix v = PosInf \<Longrightarrow> sanitized v = PosInf"
  "numeric_prefix v = NegInf \<Longrightarrow> sanitized v = NegInf"
  by (cases v; auto simp add: sanitized_def isNaN_def Let_def js_mul_by_def js_round_def
      js_div_by_def)+

lemma parseFloat_Inr: "parseFloat v = Inr x \<longleftrightarrow> \<not> to_string_throws v \<and> numeric_prefix v = x"
  by (auto simp add: parseFloat_def)

lemma ok_append:
  "persisted_numbers_ok (s\<lparr>calls := calls s @ [c]\<rparr>)
     = (persisted_numbers_ok s \<and> list_all (\<lambda>x. x \<noteq> NaN) (row_numbers c))"
  by (simp add: persisted_numbers_ok_def)

lemma ok_frame:
  "persisted_numbers_ok (s\<lparr>currentSensorId := i\<rparr>) = persisted_numbers_ok s"
  "persisted_numbers_ok (updateWarmup system s) = persisted_numbers_ok s"
  by (simp_all add: persisted_numbers_ok_def updateWarmup_frame)

lemma ok_insertSensorData:
  "persisted_numbers_ok s \<Longrightarrow> persisted_numbers_ok (snd (insertSensorData gw v s))"
  by (cases "validateSensorData v")
    (auto simp add: insertSensorData_Inr insertSensorData_Inl ok_append validateSensorData_eq
      sanitize_not_NaN split: if_splits)

lemma ok_insertSensorErrors:
  "persisted_numbers_ok s \<Longrightarrow> persisted_numbers_ok (insertSensorErrors gw i v s)"
  by (cases "validateSensorErrors v")
    (auto simp add: insertSensorErrors_Inr insertSensorErrors_Inl ok_append validateSensorErrors_eq
      sanitize_not_NaN split: if_splits)

lemma ok_insertActuatorData:
  "persisted_numbers_ok s \<Longrightarrow> persisted_numbers_ok (insertActuatorData gw i v s)"
  by (cases "validateActuatorData v")
    (auto simp add: insertActuatorData_Inr insertActuatorData_Inl ok_append validateActuatorData_eq
      sanitize_not_NaN split: if_splits)

lemma ok_getLatestSensorId:
  "persisted_numbers_ok s \<Longrightarrow> persisted_numbers_ok (snd (getLatestSensorId gw s))"
  by (simp add: getLatestSensorId_eq ok_append)

lemma ok_processSensorData:
  "persisted_numbers_ok s \<Longrightarrow> persisted_numbers_ok (snd (processSensorData gw payload s))"
  by (simp add: processSensorData_def case_prod_beta ok_insertSensorData ok_insertSensorErrors
      ok_frame split: sum.splits)

lemma ok_processControlData:
  "persisted_numbers_ok s \<Longrightarrow> persisted_numbers_ok (snd (processControlData gw payload s))"
  by (simp add: processControlData_def case_prod_beta Let_def ok_getLatestSensorId
      ok_insertActuatorData ok_frame split: sum.splits)

lemma ok_on_message:
  "persisted_numbers_ok s \<Longrightarrow> persisted_numbers_ok (on_message gw topic parsed s)"
  by (cases parsed) (simp_all add: on_message_def ok_processSensorData ok_processControlData)

text \<open>
  C5, as the code has it. \<open>sanitizeFloatValue\<close> throws on a value that cannot be converted
  to a string; on every other value it returns a number that is never \<open>NaN\<close>: an infinity,
  or the binary64 value nearest to \<open>n / 10 ^ 6\<close> for an integer \<open>n\<close>. Unparseable and
  missing values give 0. A value that parses to a finite number of magnitude at most
  \<open>10 ^ 300\<close> gives a finite result; a value that parses to an infinity gives that infinity.
  A record whose validator throws is not sent to the store. So no row the ingestion pipeline
  sends to the store holds a \<open>NaN\<close>.
\<close>

theorem sanitized_numbers_invariant:
  "(\<not> to_string_throws v \<longrightarrow>
      (\<exists>y. sanitizeFloatValue v = Inr y \<and> y \<noteq> NaN
           \<and> (y = PosInf \<or> y = NegInf \<or> (\<exists>n::int. y = to_double (of_int n / 1000000)))))
   \<and> (to_string_throws v \<longrightarrow> sanitizeFloatValue v = Inl TypeError)
   \<and> (v = Undefined \<or> v = Null \<or> parseFloat v = Inr NaN \<longrightarrow> sanitizeFloatValue v = Inr (Fin 0))
   \<and> (parseFloat v = Inr (Fin x) \<and> \<bar>x\<bar> \<le> 10 ^ 300 \<longrightarrow> (\<exists>r. sanitizeFloatValue v = Inr (Fin r)))
   \<and> (parseFloat v = Inr PosInf \<longrightarrow> sanitizeFloatValue v = Inr PosInf)
   \<and> (parseFloat v = Inr NegInf \<longrightarrow> sanitizeFloatValue v = Inr NegInf)
   \<and> (validateSensorData v = Inl e \<longrightarrow> insertSensorData gw v s = (Null, s))
   \<and> (validateSensorErrors v = Inl e \<longrightarrow> insertSensorErrors gw i v s = s)
   \<and> (validateActuatorData v = Inl e \<longrightarrow> insertActuatorData gw i v s = s)
   \<and> (persisted_numbers_ok s \<longrightarrow> persisted_numbers_ok (on_message gw topic parsed s))"
proof (intro conjI impI)
  assume "\<not> to_string_throws v"
  then have "sanitizeFloatValue v = Inr (sanitized v)" by (simp add: sanitize_eq)
  then show "\<exists>y. sanitizeFloatValue v = Inr y \<and> y \<noteq> NaN
           \<and> (y = PosInf \<or> y = NegInf \<or> (\<exists>n::int. y = to_double (of_int n / 1000000)))"
    using sanitize_not_NaN[of v] sanitize_shape[of v] by blast
next
  assume "to_string_throws v"
  then show "sanitizeFloatValue v = Inl TypeError" by (simp add: sanitize_eq)
next
  assume a: "v = Undefined \<or> v = Null \<or> parseFloat v = Inr NaN"
  then have t: "\<not> to_string_throws v" by (auto simp add: parseFloat_Inr)
  from a have "v = Undefined \<or> v = Null \<or> numeric_prefix v = NaN"
    by (auto simp add: parseFloat_Inr)
  then have "sanitized v = Fin 0" using sanitize_null sanitize_unparseable by blast
  with t show "sanitizeFloatValue v = Inr (Fin 0)" by (simp add: sanitize_eq)
next
  assume a: "parseFloat v = Inr (Fin x) \<and> \<bar>x\<bar> \<le> 10 ^ 300"
  then have t: "\<not> to_string_throws v" and p: "numeric_prefix v = Fin x"
    by (simp_all add: parseFloat_Inr)
  from p have "sanitized v = sanitized (Num (Fin x))" by (rule sanitize_of_parsed_Fin)
  moreover from a sanitize_accuracy[of x] obtain r where "sanitized (Num (Fin x)) = Fin r"
    by blast
  ultimately show "\<exists>r. sanitizeFloatValue v = Inr (Fin r)" using t by (simp add: sanitize_eq)
next
  assume "parseFloat v = Inr PosInf"
  then have "\<not> to_string_throws v" and "numeric_prefix v = PosInf"
    by (simp_all add: parseFloat_Inr)
  then show "sanitizeFloatValue v = Inr PosInf"
    by (simp add: sanitize_eq sanitize_of_parsed_Inf)
next
  assume "parseFloat v = Inr NegInf"
  then have "\<not> to_string_throws v" and "numeric_prefix v = NegInf"
    by (simp_all add: parseFloat_Inr)
  then show "sanitizeFloatValue v = Inr NegInf"
    by (simp add: sanitize_eq sanitize_of_parsed_Inf)
next
  assume "validateSensorData v = Inl e"
  then show "insertSensorData gw v s = (Null, s)" by (rule insertSensorData_Inl)
next
  assume "validateSensorErrors v = Inl e"
  then show "insertSensorErrors gw i v s = s" by (rule insertSensorErrors_Inl)
next
  assume "validateActuatorData v = Inl e"
  then show "insertActuatorData gw i v s = s" by (rule insertActuatorData_Inl)
next
  assume "persisted_numbers_ok s"
  then show "persisted_numbers_ok (on_message gw topic parsed s)" by (rule ok_on_message)
qed

theorem sanitized_numbers_invariant_witness:
  "sanitizeFloatValue (Bool True) = Inr (Fin 0)
   \<and> (\<exists>y. sanitizeFloatValue (Obj [(''ph'', Num (Fin 1))]) = Inr y \<and> y \<noteq> NaN
          \<and> (y = PosInf \<or> y = NegInf \<or> (\<exists>n::int. y = to_double (of_int n / 1000000))))
   \<and> sanitizeFloatValue (Arr [Obj [(''toString'', Num (Fin 1))]]) = Inl TypeError
   \<and> (\<exists>r. sanitizeFloatValue (Num (Fin 12)) = Inr (Fin r))
   \<and> sanitizeFloatValue (Arr [Num NegInf]) = Inr NegInf
   \<and> sanitizeFloatValue (Num PosInf) = Inr PosInf
   \<and> insertSensorData (\<lambda>h c. Resolved (Arr [Obj [(''id'', Num (Fin 5))]]) Null)
        (Obj [(''ph'', Obj [(''toString'', Num (Fin 1))])]) initial_state = (Null, initial_state)
   \<and> insertSensorErrors (\<lambda>h c. Resolved Null Null) (Num (Fin 5)) (Str ''n/a'') initial_state
       = initial_state
   \<and> insertActuatorData (\<lambda>h c. Resolved Null Null) (Num (Fin 5))
        (Obj [(''heater'', Arr [Obj [(''toString'', Null)]])]) initial_state = initial_state
   \<and> persisted_numbers_ok (on_message (\<lambda>h c. Rejects) ''biogas/data/sensors''
        (Some (Obj [(''sensors'', Obj [(''ph'', Num PosInf)])])) initial_state)"
proof -
  have p1: "parseFloat (Bool True) = Inr NaN" by (simp add: parseFloat_def)
  have 1: "sanitizeFloatValue (Bool True) = Inr (Fin 0)"
    using sanitized_numbers_invariant[where v = "Bool True", THEN conjunct2, THEN conjunct2,
        THEN conjunct1] p1 by blast
  have p2: "\<not> to_string_throws (Obj [(''ph'', Num (Fin 1))])" by simp
  have 2: "\<exists>y. sanitizeFloatValue (Obj [(''ph'', Num (Fin 1))]) = Inr y \<and> y \<noteq> NaN
          \<and> (y = PosInf \<or> y = NegInf \<or> (\<exists>n::int. y = to_double (of_int n / 1000000)))"
    using sanitized_numbers_invariant[where v = "Obj [(''ph'', Num (Fin 1))]", THEN conjunct1] p2
    by blast
  have p3: "to_string_throws (Arr [Obj [(''toString'', Num (Fin 1))]])" by simp
  have 3: "sanitizeFloatValue (Arr [Obj [(''toString'', Num (Fin 1))]]) = Inl TypeError"
    using sanitized_numbers_invariant[where v = "Arr [Obj [(''toString'', Num (Fin 1))]]",
        THEN conjunct2, THEN conjunct1] p3 by blast
  have p4: "parseFloat (Num (Fin 12)) = Inr (Fin 12) \<and> \<bar>12::rat\<bar> \<le> 10 ^ 300"
    by (simp add: parseFloat_def)
  have 4: "\<exists>r. sanitizeFloatValue (Num (Fin 12)) = Inr (Fin r)"
    using sanitized_numbers_invariant[where v = "Num (Fin 12)" and x = 12, THEN conjunct2,
        THEN conjunct2, THEN conjunct2, THEN conjunct1] p4 by blast
  have p5: "parseFloat (Arr [Num NegInf]) = Inr NegInf" by (simp add: parseFloat_def)
  have 5: "sanitizeFloatValue (Arr [Num NegInf]) = Inr NegInf"
    using sanitized_numbers_invariant[where v = "Arr [Num NegInf]", THEN conjunct2,
        THEN conjunct2, THEN conjunct2, THEN conjunct2, THEN conjunct2, THEN conjunct1] p5
    by blast
  have p6: "parseFloat (Num PosInf) = Inr PosInf" by (simp add: parseFloat_def)
  have 6: "sanitizeFloatValue (Num PosInf) = Inr PosInf"
    using sanitized_numbers_invariant[where v = "Num PosInf", THEN conjunct2,
        THEN conjunct2, THEN conjunct2, THEN conjunct2, THEN conjunct1] p6
    by blast
  have p7: "validateSensorData (Obj [(''ph'', Obj [(''toString'', Num (Fin 1))])]) = Inl TypeError"
    by (simp add: validateSensorData_eq is_object_def convertible_def)
  have 7: "insertSensorData (\<lambda>h c. Resolved (Arr [Obj [(''id'', Num (Fin 5))]]) Null)
        (Obj [(''ph'', Obj [(''toString'', Num (Fin 1))])]) initial_state = (Null, initial_state)"
    using sanitized_numbers_invariant[where v = "Obj [(''ph'', Obj [(''toString'', Num (Fin 1))])]"
        and e = TypeError and s = initial_state
        and gw = "\<lambda>h c. Resolved (Arr [Obj [(''id'', Num (Fin 5))]]) Null",
        THEN conjunct2, THEN conjunct2, THEN conjunct2, THEN conjunct2, THEN conjunct2,
        THEN conjunct2, THEN conjunct1] p7
    by blast
  have p8: "validateSensorErrors (Str ''n/a'') = Inl (Error ''Invalid sensor_errors data structure'')"
    by (simp add: validateSensorErrors_eq is_object_def)
  have 8: "insertSensorErrors (\<lambda>h c. Resolved Null Null) (Num (Fin 5)) (Str ''n/a'') initial_state
       = initial_state"
    using sanitized_numbers_invariant[where v = "Str ''n/a''"
        and e = "Error ''Invalid sensor_errors data structure''" and s = initial_state
        and gw = "\<lambda>h c. Resolved Null Null" and i = "Num (Fin 5)",
        THEN conjunct2, THEN conjunct2, THEN conjunct2, THEN conjunct2, THEN conjunct2,
        THEN conjunct2, THEN conjunct2, THEN conjunct1] p8
    by blast
  have p9: "validateActuatorData (Obj [(''heater'', Arr [Obj [(''toString'', Null)]])]) = Inl TypeError"
    by (simp add: validateActuatorData_eq is_object_def convertible_def)
  have 9: "insertActuatorData (\<lambda>h c. Resolved Null Null) (Num (Fin 5))
        (Obj [(''heater'', Arr [Obj [(''toString'', Null)]])]) initial_state = initial_state"
    using sanitized_numbers_invariant[where v = "Obj [(''heater'', Arr [Obj [(''toString'', Null)]])]"
        and e = TypeError and s = initial_state
        and gw = "\<lambda>h c. Resolved Null Null" and i = "Num (Fin 5)",
        THEN conjunct2, THEN conjunct2, THEN conjunct2, THEN conjunct2, THEN conjunct2,
        THEN conjunct2, THEN conjunct2, THEN conjunct2, THEN conjunct1] p9
    by blast
  have p10: "persisted_numbers_ok initial_state"
    by (simp add: persisted_numbers_ok_def initial_state_def)
  have 10: "persisted_numbers_ok (on_message (\<lambda>h c. Rejects) ''biogas/data/sensors''
        (Some (Obj [(''sensors'', Obj [(''ph'', Num PosInf)])])) initial_state)"
    using sanitized_numbers_invariant[where s = initial_state, THEN conjunct2, THEN conjunct2,
        THEN conjunct2, THEN conjunct2, THEN conjunct2, THEN conjunct2, THEN conjunct2,
        THEN conjunct2, THEN conjunct2] p10
    by blast
  show ?thesis by (intro conjI 1 2 3 4 5 6 7 8 9 10)
qed

text \<open>
  The claim as stated, a finite result on every input, fails on the very inputs it names:
  the sanitizer tests \<open>isNaN\<close> only, so an infinite number and a string that parses to
  \<open>Infinity\<close> pass through unchanged and reach the validated row. A finite number whose
  product with \<open>1000000\<close> overflows, such as \<open>2 ^ 1020\<close>, becomes infinite as well. And on
  \<open>{toString: 1}\<close> the sanitizer has no result at all: it throws.
\<close>

theorem sanitized_numbers_invariant_counterexample:
  "sanitizeFloatValue (Num PosInf) = Inr PosInf
   \<and> sanitizeFloatValue (Str ''Infinity'') = Inr PosInf
   \<and> sanitizeFloatValue (Num (Fin (2 ^ 1020))) = Inr PosInf
   \<and> validateSensorData (Obj [(''ph'', Str ''-Infinity'')])
       = Inr \<lparr> ph = NegInf, temp = Fin 0, ch4 = Fin 0, pressure = Fin 0 \<rparr>
   \<and> calls (on_message (\<lambda>h c. Rejects) ''biogas/data/sensors''
        (Some (Obj [(''sensors'', Obj [(''ph'', Str ''-Infinity'')])])) initial_state)
       = [InsertSensors \<lparr> ph = NegInf, temp = Fin 0, ch4 = Fin 0, pressure = Fin 0 \<rparr>]
   \<and> sanitizeFloatValue (Obj [(''toString'', Num (Fin 1))]) = Inl TypeError"
proof -
  note p = numeric_prefix_Infinity(1) and n = numeric_prefix_Infinity(2)
  have 1: "sanitizeFloatValue (Num PosInf) = Inr PosInf"
    by (simp only: sanitize_Num sanitize_Num_Inf)
  have "sanitized (Str ''Infinity'') = PosInf" using p by (rule sanitize_of_parsed_Inf)
  then have 2: "sanitizeFloatValue (Str ''Infinity'') = Inr PosInf" by (simp add: sanitize_eq)
  have 3: "sanitized (Str ''-Infinity'') = NegInf" using n by (rule sanitize_of_parsed_Inf)
  have 4: "validateSensorData (Obj [(''ph'', Str ''-Infinity'')])
       = Inr \<lparr> ph = NegInf, temp = Fin 0, ch4 = Fin 0, pressure = Fin 0 \<rparr>"
    by (simp add: validateSensorData_eq is_object_def convertible_def 3 sanitize_null)
  have 5: "calls (on_message (\<lambda>h c. Rejects) ''biogas/data/sensors''
        (Some (Obj [(''sensors'', Obj [(''ph'', Str ''-Infinity'')])])) initial_state)
       = [InsertSensors \<lparr> ph = NegInf, temp = Fin 0, ch4 = Fin 0, pressure = Fin 0 \<rparr>]"
    by (simp add: on_message_def processSensorData_def initial_state_def js_get_def
        insertSensorData_def 4 send_def reply_id_def)
  have 6: "sanitizeFloatValue (Num (Fin (2 ^ 1020))) = Inr PosInf"
    by (simp only: sanitize_Num sanitize_overflow)
  have 7: "sanitizeFloatValue (Obj [(''toString'', Num (Fin 1))]) = Inl TypeError"
    by (simp add: sanitize_eq)
  show ?thesis by (intro conjI 1 2 6 4 5 7)
qed

section \<open>Claims about the calibration trigger\<close>

lemma body_get: "body \<noteq> Null \<Longrightarrow> body \<noteq> Undefined \<Longrightarrow> js_get body k = Inr (js_prop body k)"
  by (simp add: js_get_def)

lemma print_frame:
  "isCalibrating (print l t s) = isCalibrating s"
  "lastCalibration (print l t s) = lastCalibration s"
  "pendingCalibration (print l t s) = pendingCalibration s"
  "store_calls (print l t s) = store_calls s"
  "publishes (print l t s) = publishes s"
  "console (print l t s) = console s @ [(l, t)]"
  by (simp_all add: print_def)

lemma passes_validation_iff:
  "passes_validation body
     \<longleftrightarrow> truthy (js_prop body ''referencePh'') \<and> truthy (js_prop body ''currentPh'')
        \<and> \<not> to_string_throws (js_prop body ''referencePh'')
        \<and> \<not> to_string_throws (js_prop body ''currentPh'')
        \<and> numeric_prefix (js_prop body ''referencePh'') \<noteq> NaN
        \<and> numeric_prefix (js_prop body ''currentPh'') \<noteq> NaN"
  by (auto simp add: passes_validation_def parseFloat_def isNaN_def)

lemma calibrate_thrown:
  assumes "body = Null \<or> body = Undefined \<or> conversion_throws body"
  shows "calibrate_ph c e clock body s = calibrate_catch s"
  using assms
  by (auto simp add: calibrate_ph_def js_get_def conversion_throws_def parseFloat_def)

lemma calibrate_rejected:
  assumes "body \<noteq> Null" and "body \<noteq> Undefined" and "\<not> conversion_throws body"
    and "\<not> passes_validation body"
  shows "status (fst (calibrate_ph c e clock body s)) = 400"
    and "\<not> body_success (fst (calibrate_ph c e clock body s))"
    and "snd (calibrate_ph c e clock body s) = s"
  using assms(3,4)
  by (auto simp add: calibrate_ph_def body_get[OF assms(1,2)] passes_validation_iff
      conversion_throws_def parseFloat_def isNaN_def)

lemma calibrate_passed:
  assumes "body \<noteq> Null" and "body \<noteq> Undefined" and "passes_validation body"
  shows "calibrate_ph c e clock body s =
     (let refPh = numeric_prefix (js_prop body ''referencePh'');
          curPh = numeric_prefix (js_prop body ''currentPh'');
          offs = sanitized (Num (js_sub refPh curPh));
          s0 = print LOG ''   Calculated offset:''
                 (print LOG ''   Current pH:''
                   (print LOG ''   Reference pH:''
                     (print LOG ''pH Calibration requested:'' s)))
      in if \<not> c then (Response 503 False ''MQTT client tidak terhubung'' None, s0)
         else if isCalibrating s then (Response 409 False ''Kalibrasi pH sedang dalam proses'' None, s0)
         else
           let s1 = s0\<lparr>isCalibrating := True,
                      pendingCalibration :=
                        Some \<lparr> referencePh = refPh, currentPh = curPh, offset = offs,
                               timestamp_pending = clock 0 \<rparr>,
                      publishes := publishes s @
                        [Publish ''biogas/ph_offset'' (json_number offs) (json_number refPh)
                           (json_number curPh) (clock 1) 1]\<rparr>
           in if truthy e
              then (Response 500 False ''Gagal mengirim offset ke ESP32'' None,
                    (print ERROR ''Failed to publish pH offset:'' s1)
                      \<lparr>isCalibrating := False, pendingCalibration := None\<rparr>)
              else (Response 200 True ''Offset pH berhasil dikirim ke ESP32''
                      (Some \<lparr> data_referencePh = json_number refPh,
                               data_currentPh = json_number curPh,
                               data_offset = json_number offs,
                               data_timestamp = clock 2 \<rparr>),
                    print LOG ''pH offset published:'' s1))"
  using assms(3)
  by (simp add: calibrate_ph_def body_get[OF assms(1,2)] passes_validation_iff parseFloat_def
      isNaN_def sanitize_Num Let_def print_frame)

lemma calibrate_accepted:
  assumes "body \<noteq> Null" and "body \<noteq> Undefined" and "passes_validation body"
  shows "status (fst (calibrate_ph c e clock body s))
           = (if \<not> c then 503 else if isCalibrating s then 409 else if truthy e then 500 else 200)"
  by (simp add: calibrate_passed[OF assms] Let_def)



lemma falsy_not_zero_unparseable:
  "\<not> truthy v \<Longrightarrow> v \<noteq> Num (Fin 0) \<Longrightarrow> numeric_prefix v = NaN \<and> \<not> to_string_throws v"
  by (cases v) (auto simp add: parseFloat_string_def)


subsection \<open>C6: one calibration at a time\<close>




text \<open>
  An exception inside the handler (a request without a body, or an input whose conversion
  throws) reaches the \<open>catch\<close> block, which answers 500 and resets the in-progress flag and
  the pending request, also when they belong to an earlier request that is still in flight.
  The statement above leaves these requests out.
\<close>

lemma calibrate_catch_resets:
  assumes "body = Null \<or> body = Undefined \<or> conversion_throws body"
  shows "status (fst (calibrate_ph c e clock body s)) = 500"
    and "\<not> isCalibrating (snd (calibrate_ph c e clock body s))"
    and "pendingCalibration (snd (calibrate_ph c e clock body s)) = None"
    and "publishes (snd (calibrate_ph c e clock body s)) = publishes s"
  by (simp_all add: calibrate_thrown[OF assms] calibrate_catch_def print_frame)

lemma calibrate_catch_example:
  "calibrate_ph True Null clock
     (Obj [(''referencePh'', Obj [(''toString'', Num (Fin 1))]), (''currentPh'', Num (Fin 7))])
     (s\<lparr>isCalibrating := True\<rparr>)
   = (Response 500 False ''Internal server error'' None,
      (print ERROR ''Error in pH calibration endpoint:'' s)
        \<lparr>isCalibrating := False, pendingCalibration := None\<rparr>)"
  by (simp add: calibrate_ph_def js_get_def parseFloat_def calibrate_catch_def print_def)

subsection \<open>C8: validation of the calibration inputs\<close>

text \<open>
  C8, as the code has it. Take a request body whose two inputs are not the number 0. When
  no conversion of an input throws, the handler answers 400 exactly when an input is absent
  (\<open>undefined\<close> or \<open>null\<close>) or \<open>parseFloat\<close> of it is \<open>NaN\<close>. For every pair of inputs that
  both parse, to a finite or an infinite number, validation succeeds and the answer is
  decided by the later steps: 503, 409, or the outcome of the publish. When both inputs are
  there and the conversion of one throws, the answer is 500.
\<close>

theorem calibrate_validation:
  assumes "body \<noteq> Null" and "body \<noteq> Undefined"
    and "js_prop body ''referencePh'' \<noteq> Num (Fin 0)"
    and "js_prop body ''currentPh'' \<noteq> Num (Fin 0)"
  shows "(\<not> conversion_throws body \<longrightarrow>
           (status (fst (calibrate_ph mqtt_connected publish_err clock body s)) = 400
            \<longleftrightarrow> (js_prop body ''referencePh'' = Undefined \<or> js_prop body ''referencePh'' = Null
                 \<or> js_prop body ''currentPh'' = Undefined \<or> js_prop body ''currentPh'' = Null
                 \<or> parseFloat (js_prop body ''referencePh'') = Inr NaN
                 \<or> parseFloat (js_prop body ''currentPh'') = Inr NaN)))
         \<and> (parseFloat (js_prop body ''referencePh'') = Inr x \<and> x \<noteq> NaN
             \<and> parseFloat (js_prop body ''currentPh'') = Inr y \<and> y \<noteq> NaN \<longrightarrow>
             status (fst (calibrate_ph mqtt_connected publish_err clock body s))
               = (if \<not> mqtt_connected then 503 else if isCalibrating s then 409
                  else if truthy publish_err then 500 else 200))
         \<and> (conversion_throws body \<longrightarrow>
             status (fst (calibrate_ph mqtt_connected publish_err clock body s)) = 500)"
proof (intro conjI impI)
  let ?r = "js_prop body ''referencePh''" and ?c = "js_prop body ''currentPh''"
  note fr = falsy_not_zero_unparseable[OF _ assms(3)]
  note fc = falsy_not_zero_unparseable[OF _ assms(4)]
  assume t: "\<not> conversion_throws body"
  have a: "?r = Undefined \<or> ?r = Null \<or> ?c = Undefined \<or> ?c = Null
           \<or> parseFloat ?r = Inr NaN \<or> parseFloat ?c = Inr NaN
        \<longleftrightarrow> \<not> passes_validation body"
    using fr fc t
    by (auto simp add: passes_validation_iff conversion_throws_def parseFloat_def)
  show "status (fst (calibrate_ph mqtt_connected publish_err clock body s)) = 400
            \<longleftrightarrow> (?r = Undefined \<or> ?r = Null \<or> ?c = Undefined \<or> ?c = Null
                 \<or> parseFloat ?r = Inr NaN \<or> parseFloat ?c = Inr NaN)"
  proof (cases "passes_validation body")
    case True
    then show ?thesis
      using calibrate_accepted[OF assms(1,2) True, where c = mqtt_connected and s = s
          and e = publish_err and clock = clock] a
      by simp
  next
    case False
    then show ?thesis using calibrate_rejected(1)[OF assms(1,2) t False] a by simp
  qed
next
  note fr = falsy_not_zero_unparseable[OF _ assms(3)]
  note fc = falsy_not_zero_unparseable[OF _ assms(4)]
  assume "parseFloat (js_prop body ''referencePh'') = Inr x \<and> x \<noteq> NaN
             \<and> parseFloat (js_prop body ''currentPh'') = Inr y \<and> y \<noteq> NaN"
  then have "passes_validation body"
    using fr fc by (auto simp add: passes_validation_iff parseFloat_def split: if_splits)
  then show "status (fst (calibrate_ph mqtt_connected publish_err clock body s))
               = (if \<not> mqtt_connected then 503 else if isCalibrating s then 409
                  else if truthy publish_err then 500 else 200)"
    by (rule calibrate_accepted[OF assms(1,2)])
next
  assume "conversion_throws body"
  then show "status (fst (calibrate_ph mqtt_connected publish_err clock body s)) = 500"
    by (simp add: calibrate_thrown calibrate_catch_def)
qed

theorem calibrate_validation_witness:
  "status (fst (calibrate_ph True Null (\<lambda>i. ''t'')
       (Obj [(''referencePh'', Num (Fin 7)), (''currentPh'', Num (Fin 6))])
       initial_server_state)) = 200
   \<and> status (fst (calibrate_ph True Null (\<lambda>i. ''t'')
       (Obj [(''referencePh'', Str ''seven''), (''currentPh'', Num (Fin 6))])
       initial_server_state)) = 400
   \<and> status (fst (calibrate_ph True Null (\<lambda>i. ''t'')
       (Obj [(''currentPh'', Num (Fin 6))])
       initial_server_state)) = 400
   \<and> status (fst (calibrate_ph True Null (\<lambda>i. ''t'')
       (Obj [(''referencePh'', Obj [(''toString'', Num (Fin 1))]), (''currentPh'', Num (Fin 6))])
       initial_server_state)) = 500"
proof -
  have n: "parseFloat (Str ''seven'') = Inr NaN"
    by (simp add: parseFloat_def parseFloat_string_def ws_len_def ws1_def ws2_def ws3_def
        parse_unsigned_def is_digit_def Let_def)
  have 1: "status (fst (calibrate_ph True Null (\<lambda>i. ''t'')
       (Obj [(''referencePh'', Num (Fin 7)), (''currentPh'', Num (Fin 6))])
       initial_server_state)) = 200"
    using calibrate_validation[where body = "Obj [(''referencePh'', Num (Fin 7)), (''currentPh'', Num (Fin 6))]"
        and mqtt_connected = True and publish_err = Null and clock = "\<lambda>i. ''t''"
        and s = initial_server_state and x = "Fin 7" and y = "Fin 6", THEN conjunct2, THEN conjunct1]
    by (simp add: initial_server_state_def parseFloat_def)
  have 2: "status (fst (calibrate_ph True Null (\<lambda>i. ''t'')
       (Obj [(''referencePh'', Str ''seven''), (''currentPh'', Num (Fin 6))])
       initial_server_state)) = 400"
    using calibrate_validation[where body = "Obj [(''referencePh'', Str ''seven''), (''currentPh'', Num (Fin 6))]"
        and mqtt_connected = True and publish_err = Null and clock = "\<lambda>i. ''t''"
        and s = initial_server_state, THEN conjunct1] n
    by (simp add: conversion_throws_def)
  have 3: "status (fst (calibrate_ph True Null (\<lambda>i. ''t'')
       (Obj [(''currentPh'', Num (Fin 6))])
       initial_server_state)) = 400"
    using calibrate_validation[where body = "Obj [(''currentPh'', Num (Fin 6))]"
        and mqtt_connected = True and publish_err = Null and clock = "\<lambda>i. ''t''"
        and s = initial_server_state, THEN conjunct1]
    by (simp add: conversion_throws_def)
  have 4: "status (fst (calibrate_ph True Null (\<lambda>i. ''t'')
       (Obj [(''referencePh'', Obj [(''toString'', Num (Fin 1))]), (''currentPh'', Num (Fin 6))])
       initial_server_state)) = 500"
    using calibrate_validation[where body = "Obj [(''referencePh'', Obj [(''toString'', Num (Fin 1))]),
          (''currentPh'', Num (Fin 6))]"
        and mqtt_connected = True and publish_err = Null and clock = "\<lambda>i. ''t''"
        and s = initial_server_state, THEN conjunct2, THEN conjunct2]
    by (simp add: conversion_throws_def)
  from 1 2 3 4 show ?thesis by simp
qed

text \<open>
  The claim as stated, a validation error exactly when an input does not parse as a finite
  number, fails because the handler tests \<open>isNaN\<close> only: the request
  \<open>{ referencePh: 'Infinity', currentPh: 7 }\<close> passes validation and is answered 200; the
  offset is infinite, and the published JSON text carries \<open>null\<close> for it and for the
  reference. It fails also on an input whose conversion throws: that request is answered
  500, not 400.
\<close>

theorem calibrate_validation_counterexample:
  "status (fst (calibrate_ph True Null (\<lambda>i. ''t'')
       (Obj [(''referencePh'', Str ''Infinity''), (''currentPh'', Num (Fin 7))])
       initial_server_state)) = 200
   \<and> publishes (snd (calibrate_ph True Null (\<lambda>i. ''t'')
       (Obj [(''referencePh'', Str ''Infinity''), (''currentPh'', Num (Fin 7))])
       initial_server_state))
     = [Publish ''biogas/ph_offset'' Null Null (Num (Fin 7)) ''t'' 1]
   \<and> pendingCalibration (snd (calibrate_ph True Null (\<lambda>i. ''t'')
       (Obj [(''referencePh'', Str ''Infinity''), (''currentPh'', Num (Fin 7))])
       initial_server_state))
     = Some \<lparr> referencePh = PosInf, currentPh = Fin 7, offset = PosInf, timestamp_pending = ''t'' \<rparr>
   \<and> status (fst (calibrate_ph True Null (\<lambda>i. ''t'')
       (Obj [(''referencePh'', Obj [(''toString'', Num (Fin 1))]), (''currentPh'', Num (Fin 7))])
       initial_server_state)) = 500"
proof -
  have p: "parseFloat_string ''Infinity'' = PosInf" using numeric_prefix_Infinity(1) by simp
  show ?thesis
    by (simp add: calibrate_ph_def js_get_def Let_def parseFloat_def p isNaN_def sanitize_Num
        sanitize_Num_Inf json_number_def print_frame initial_server_state_def
        calibrate_catch_def)
qed

text \<open>
  The first test of the handler, \<open>!referencePh || !currentPh\<close>, also turns away the number 0,
  which is present and parses; the statement above leaves that input out.
\<close>

lemma calibrate_zero_rejected:
  "calibrate_ph True Null clock (Obj [(''referencePh'', Num (Fin 0)), (''currentPh'', Num (Fin 7))]) s
     = (Response 400 False ''referencePh dan currentPh diperlukan'' None, s)"
  by (simp add: calibrate_ph_def js_get_def)

subsection \<open>C7: processing a calibration response\<close>

lemma response_frame:
  "isCalibrating (logPhCalibration gw now payload s) = isCalibrating s"
  "lastCalibration (logPhCalibration gw now payload s) = lastCalibration s"
  "pendingCalibration (logPhCalibration gw now payload s) = pendingCalibration s"
  "publishes (logPhCalibration gw now payload s) = publishes s"
  by (auto simp add: logPhCalibration_def Let_def print_frame split: sum.splits db_reply.splits)

lemma logPhCalibration_readable:
  assumes "payload \<noteq> Null" and "payload \<noteq> Undefined"
  shows "store_calls (logPhCalibration gw now payload s)
           = store_calls s @ [InsertCalibrationLog (calibration_log_of now payload (pendingCalibration s))]"
    and "console (logPhCalibration gw now payload s)
           = console s @
             [case gw (store_calls s)
                     (InsertCalibrationLog (calibration_log_of now payload (pendingCalibration s))) of
                Rejects \<Rightarrow> (WARN, ''Exception saving calibration log:'')
              | Resolved d e \<Rightarrow>
                  if truthy e then (WARN, ''Could not save calibration log:'')
                  else (LOG, ''Calibration log saved successfully'')]"
  by (auto simp add: logPhCalibration_def body_get[OF assms] Let_def print_frame
      calibration_log_of_def split: db_reply.splits)

lemma response_readable:
  assumes "payload \<noteq> Null" and "payload \<noteq> Undefined"
  shows "processPhCalibrationResponse gw clock payload s
     = logPhCalibration gw (clock 1) payload
         ((if truthy (response_success payload) then print LOG ''pH Calibration successful:''
           else print ERROR ''pH Calibration failed:'')
            ((print LOG ''pH Calibration Response received:'' s)
               \<lparr>isCalibrating := False,
                lastCalibration := Some \<lparr> timestamp_last = clock 0, response = payload,
                                          success_last = response_success payload \<rparr>\<rparr>))"
  by (simp add: processPhCalibrationResponse_def body_get[OF assms] Let_def)

lemma response_clears_flag:
  "\<not> isCalibrating (processPhCalibrationResponse gw clock payload s)"
  by (auto simp add: processPhCalibrationResponse_def Let_def response_frame print_frame
      split: sum.splits)

text \<open>
  C7, as the code has it. Processing a calibration response clears the in-progress flag, on
  every payload. When the payload can be read (it is not \<open>null\<close>), the last calibration
  becomes the record of the response, its time and its success value, which is truthy exactly
  when \<open>payload.success\<close> is truthy or \<open>payload.status\<close> is \<open>'success'\<close>; then one log row
  is sent to the store. Persisting is best effort: a rejected or failed insert only prints a
  warning, and the state apart from the console is the same whatever the store answers.
  Nothing is published.
\<close>

theorem calibration_response_processing:
  assumes "payload \<noteq> Null" and "payload \<noteq> Undefined"
  shows "\<not> isCalibrating (processPhCalibrationResponse gw clock payload s)
     \<and> lastCalibration (processPhCalibrationResponse gw clock payload s)
         = Some \<lparr> timestamp_last = clock 0, response = payload,
                  success_last = response_success payload \<rparr>
     \<and> (truthy (response_success payload)
          \<longleftrightarrow> truthy (js_prop payload ''success'') \<or> js_prop payload ''status'' = Str ''success'')
     \<and> store_calls (processPhCalibrationResponse gw clock payload s)
         = store_calls s @
             [InsertCalibrationLog (calibration_log_of (clock 1) payload (pendingCalibration s))]
     \<and> success (calibration_log_of (clock 1) payload (pendingCalibration s))
         = response_success payload
     \<and> last (console (processPhCalibrationResponse gw clock payload s))
         = (case gw (store_calls s)
                   (InsertCalibrationLog (calibration_log_of (clock 1) payload (pendingCalibration s))) of
              Rejects \<Rightarrow> (WARN, ''Exception saving calibration log:'')
            | Resolved d e \<Rightarrow>
                if truthy e then (WARN, ''Could not save calibration log:'')
                else (LOG, ''Calibration log saved successfully''))
     \<and> (processPhCalibrationResponse gw clock payload s)\<lparr>console := []\<rparr>
         = (processPhCalibrationResponse (\<lambda>h c. Rejects) clock payload s)\<lparr>console := []\<rparr>
     \<and> publishes (processPhCalibrationResponse gw clock payload s) = publishes s"
proof (intro conjI)
  note r = response_readable[OF assms]
  show "\<not> isCalibrating (processPhCalibrationResponse gw clock payload s)"
    by (rule response_clears_flag)
  show "lastCalibration (processPhCalibrationResponse gw clock payload s)
         = Some \<lparr> timestamp_last = clock 0, response = payload,
                  success_last = response_success payload \<rparr>"
    by (simp add: r response_frame print_frame)
  show "truthy (response_success payload)
          \<longleftrightarrow> truthy (js_prop payload ''success'') \<or> js_prop payload ''status'' = Str ''success''"
    by (simp add: response_success_def)
  show "store_calls (processPhCalibrationResponse gw clock payload s)
         = store_calls s @
             [InsertCalibrationLog (calibration_log_of (clock 1) payload (pendingCalibration s))]"
    by (simp add: r logPhCalibration_readable[OF assms] print_frame)
  show "success (calibration_log_of (clock 1) payload (pendingCalibration s))
         = response_success payload"
    by (simp add: calibration_log_of_def)
  show "last (console (processPhCalibrationResponse gw clock payload s))
         = (case gw (store_calls s)
                   (InsertCalibrationLog (calibration_log_of (clock 1) payload (pendingCalibration s))) of
              Rejects \<Rightarrow> (WARN, ''Exception saving calibration log:'')
            | Resolved d e \<Rightarrow>
                if truthy e then (WARN, ''Could not save calibration log:'')
                else (LOG, ''Calibration log saved successfully''))"
    by (simp add: r logPhCalibration_readable[OF assms] print_frame)
  show "(processPhCalibrationResponse gw clock payload s)\<lparr>console := []\<rparr>
         = (processPhCalibrationResponse (\<lambda>h c. Rejects) clock payload s)\<lparr>console := []\<rparr>"
    by (simp add: r logPhCalibration_def body_get[OF assms] Let_def print_def
        split: db_reply.splits)
  show "publishes (processPhCalibrationResponse gw clock payload s) = publishes s"
    by (simp add: r response_frame print_frame)
qed

theorem calibration_response_processing_witness:
  "\<not> isCalibrating (processPhCalibrationResponse (\<lambda>h c. Resolved Null (Str ''no table''))
        (\<lambda>i. ''t'') (Obj [(''status'', Str ''success'')])
        (initial_server_state\<lparr>isCalibrating := True\<rparr>))
   \<and> lastCalibration (processPhCalibrationResponse (\<lambda>h c. Resolved Null (Str ''no table''))
        (\<lambda>i. ''t'') (Obj [(''status'', Str ''success'')])
        (initial_server_state\<lparr>isCalibrating := True\<rparr>))
       = Some \<lparr> timestamp_last = ''t'', response = Obj [(''status'', Str ''success'')],
                success_last = Bool True \<rparr>
   \<and> last (console (processPhCalibrationResponse (\<lambda>h c. Resolved Null (Str ''no table''))
        (\<lambda>i. ''t'') (Obj [(''status'', Str ''success'')])
        (initial_server_state\<lparr>isCalibrating := True\<rparr>)))
       = (WARN, ''Could not save calibration log:'')"
proof -
  have a: "Obj [(''status'', Str ''success'')] \<noteq> Null" "Obj [(''status'', Str ''success'')] \<noteq> Undefined"
    by simp_all
  show ?thesis
    using calibration_response_processing[OF a,
        where gw = "\<lambda>h c. Resolved Null (Str ''no table'')" and clock = "\<lambda>i. ''t''"
        and s = "initial_server_state\<lparr>isCalibrating := True\<rparr>"]
    by (simp add: response_success_def)
qed

text \<open>
  The claim as stated fails in its last part: the response handler never assigns
  \<open>pendingCalibration\<close>, so the request that was pending is still held after the response
  (and is still returned by the status endpoint).
\<close>

theorem calibration_response_processing_counterexample:
  "pendingCalibration (processPhCalibrationResponse (\<lambda>h c. Resolved Null Null) (\<lambda>i. ''t'')
       (Obj [(''success'', Bool True)])
       (initial_server_state\<lparr>isCalibrating := True,
          pendingCalibration := Some \<lparr> referencePh = Fin 7, currentPh = Fin 6, offset = Fin 1,
                                        timestamp_pending = ''t0'' \<rparr>\<rparr>))
     = Some \<lparr> referencePh = Fin 7, currentPh = Fin 6, offset = Fin 1, timestamp_pending = ''t0'' \<rparr>"
  by (simp add: processPhCalibrationResponse_def js_get_def Let_def response_frame print_frame
      initial_server_state_def)


end
